theory Spec2Isabelle
  imports Complex_Main "HOL-Library.Char_ord" "HOL-Library.List_Lexorder"
begin

section \<open>Values shared by both scripts\<close>

text \<open>
  A Python float is either not-a-number or a number. The numbers are modelled as reals:
  the scripts only parse, copy and compare energies, they never compute with the values
  that the statements below are about, so rounding to a double is left out. Infinities
  are left out as well: none of the patterns of the parser can capture one.
\<close>

datatype pyfloat = NaN | Fl real

fun isnan :: "pyfloat \<Rightarrow> bool" where
  "isnan NaN = True"
| "isnan (Fl x) = False"

text \<open>Python's \<^verbatim>\<open>==\<close> on floats: not-a-number differs from everything, itself included.\<close>

fun py_eq :: "pyfloat \<Rightarrow> pyfloat \<Rightarrow> bool" where
  "py_eq (Fl x) (Fl y) = (x = y)"
| "py_eq _ _ = False"

text \<open>\<^verbatim>\<open>np.array_equal(a, b, equal_nan)\<close> on one-dimensional arrays.\<close>

definition array_equal :: "pyfloat list \<Rightarrow> pyfloat list \<Rightarrow> bool \<Rightarrow> bool" where
  "array_equal a b equal_nan =
     (length a = length b \<and>
      list_all2 (\<lambda>x y. py_eq x y \<or> (equal_nan \<and> isnan x \<and> isnan y)) a b)"

datatype py_error =
    OUTCAR_not_found
  | ReadError
  | ValueError string
  | IndexError
  | KeyError string
  | ZeroDivisionError
  | FileNotFoundError
  | OSError
  | No_calculation_directories_found
  | Failed_to_process_CSV py_error

section \<open>Strings and the regular expressions of the parsers\<close>

text \<open>
  A document is the list of its characters, each a code point below 256. On these,
  \<^verbatim>\<open>\s\<close> of a Python \<^verbatim>\<open>str\<close> pattern matches the characters below and
  \<^verbatim>\<open>\d\<close> matches the ten ASCII digits.
\<close>

definition is_space :: "char \<Rightarrow> bool" where
  "is_space c = ((of_char c :: nat) \<in> {9, 10, 11, 12, 13, 28, 29, 30, 31, 32, 133, 160})"

definition is_digit :: "char \<Rightarrow> bool" where
  "is_digit c = (48 \<le> (of_char c :: nat) \<and> (of_char c :: nat) \<le> 57)"

definition digit_val :: "char \<Rightarrow> nat" where
  "digit_val c = (of_char c :: nat) - 48"

text \<open>\<^verbatim>\<open>s.startswith(p)\<close>, returning what follows the prefix.\<close>

fun strip_prefix :: "string \<Rightarrow> string \<Rightarrow> string option" where
  "strip_prefix [] s = Some s"
| "strip_prefix (p # ps) [] = None"
| "strip_prefix (p # ps) (c # cs) = (if p = c then strip_prefix ps cs else None)"

definition startswith :: "string \<Rightarrow> string \<Rightarrow> bool" where
  "startswith s p = (strip_prefix p s \<noteq> None)"

text \<open>\<^verbatim>\<open>sub in s\<close>.\<close>

fun contains :: "string \<Rightarrow> string \<Rightarrow> bool" where
  "contains sub [] = (sub = [])"
| "contains sub (c # cs) = (startswith (c # cs) sub \<or> contains sub cs)"

text \<open>
  A matcher tries a pattern at the start of a string and returns the captured group with
  the number of characters the whole match consumed. \<^verbatim>\<open>re.findall\<close> scans from left
  to right, and after a match continues behind it; \<open>skip\<close> counts the characters of the
  last match that are still to be passed over. None of the patterns matches the empty
  string.
\<close>

type_synonym matcher = "string \<Rightarrow> (string \<times> nat) option"

fun findall_from :: "matcher \<Rightarrow> nat \<Rightarrow> string \<Rightarrow> string list" where
  "findall_from m skip [] = []"
| "findall_from m skip (c # cs) =
     (if 0 < skip then findall_from m (skip - 1) cs
      else (case m (c # cs) of
              None \<Rightarrow> findall_from m 0 cs
            | Some (cap, n) \<Rightarrow> cap # findall_from m (n - 1) cs))"

definition findall :: "matcher \<Rightarrow> string \<Rightarrow> string list" where
  "findall m s = findall_from m 0 s"

text \<open>\<^verbatim>\<open>re.search\<close>: the first match.\<close>

fun search :: "matcher \<Rightarrow> string \<Rightarrow> string option" where
  "search m [] = None"
| "search m (c # cs) =
     (case m (c # cs) of None \<Rightarrow> search m cs | Some (cap, n) \<Rightarrow> Some cap)"

text \<open>A literal, with the literal itself as the group.\<close>

definition m_literal :: "string \<Rightarrow> matcher" where
  "m_literal lit s = (case strip_prefix lit s of None \<Rightarrow> None | Some r \<Rightarrow> Some (lit, length lit))"

text \<open>
  \<^verbatim>\<open>label\s*=\s*([cls]+)\<close> for a character class \<open>cls\<close> without white space and
  without \<^verbatim>\<open>=\<close>: each greedy repetition stops at the first character outside its class,
  and giving characters back can never help, so the match is the greedy one.
\<close>

definition m_label_eq_class :: "string \<Rightarrow> (char \<Rightarrow> bool) \<Rightarrow> matcher" where
  "m_label_eq_class label cls s =
     (case strip_prefix label s of
        None \<Rightarrow> None
      | Some r1 \<Rightarrow>
          (case dropWhile is_space r1 of
             [] \<Rightarrow> None
           | c # r2 \<Rightarrow>
               if c \<noteq> CHR ''='' then None
               else let r3 = dropWhile is_space r2; cap = takeWhile cls r3
                    in if cap = [] then None
                       else Some (cap, length s - length (dropWhile cls r3))))"

text \<open>\<^verbatim>\<open>[-+]?\d+\.\d+\<close> at the start of a string: the group and what follows it.\<close>

definition m_signed_decimal :: "string \<Rightarrow> (string \<times> string) option" where
  "m_signed_decimal s =
     (let (sgn, r) = (case s of
                        [] \<Rightarrow> ([], [])
                      | c # cs \<Rightarrow> if c = CHR ''-'' \<or> c = CHR ''+'' then ([c], cs) else ([], s));
          ip = takeWhile is_digit r;
          r1 = dropWhile is_digit r
      in if ip = [] then None
         else (case r1 of
                 [] \<Rightarrow> None
               | d # r2 \<Rightarrow>
                   if d \<noteq> CHR ''.'' then None
                   else let fp = takeWhile is_digit r2
                        in if fp = [] then None
                           else Some (sgn @ ip @ [d] @ fp, dropWhile is_digit r2)))"

text \<open>\<^verbatim>\<open>label\s*=\s*([-+]?\d+\.\d+)\<close> followed by \<^verbatim>\<open>\s*\<close> and the literal \<open>tail\<close>.\<close>

definition m_label_eq_decimal :: "string \<Rightarrow> string \<Rightarrow> matcher" where
  "m_label_eq_decimal label tail s =
     (case strip_prefix label s of
        None \<Rightarrow> None
      | Some r1 \<Rightarrow>
          (case dropWhile is_space r1 of
             [] \<Rightarrow> None
           | c # r2 \<Rightarrow>
               if c \<noteq> CHR ''='' then None
               else (case m_signed_decimal (dropWhile is_space r2) of
                       None \<Rightarrow> None
                     | Some (cap, r3) \<Rightarrow>
                         if tail = [] then Some (cap, length s - length r3)
                         else (case strip_prefix tail (dropWhile is_space r3) of
                                 None \<Rightarrow> None
                               | Some r4 \<Rightarrow> Some (cap, length s - length r4)))))"

text \<open>\<^verbatim>\<open>POSITION\s+TOTAL-FORCE\<close>; without a group, the match itself is returned.\<close>

definition m_position_total_force :: matcher where
  "m_position_total_force s =
     (case strip_prefix ''POSITION'' s of
        None \<Rightarrow> None
      | Some r1 \<Rightarrow>
          if takeWhile is_space r1 = [] then None
          else (case strip_prefix ''TOTAL-FORCE'' (dropWhile is_space r1) of
                  None \<Rightarrow> None
                | Some r2 \<Rightarrow> Some (take (length s - length r2) s, length s - length r2)))"

text \<open>
  \<^verbatim>\<open>float(s)\<close> on the strings the patterns can capture, which consist of signs, digits
  and dots only: an optional sign, then digits with at most one dot among them and at
  least one digit. Anything else raises \<^verbatim>\<open>ValueError\<close>, here \<open>None\<close>.
\<close>

definition digits_val :: "string \<Rightarrow> nat" where
  "digits_val ds = foldl (\<lambda>acc c. 10 * acc + digit_val c) 0 ds"

definition py_float_unsigned :: "string \<Rightarrow> real option" where
  "py_float_unsigned s =
     (let ip = takeWhile is_digit s; r = dropWhile is_digit s
      in (case r of
            [] \<Rightarrow> if ip = [] then None else Some (real (digits_val ip))
          | d # fp \<Rightarrow>
              if d = CHR ''.'' \<and> list_all is_digit fp \<and> (ip \<noteq> [] \<or> fp \<noteq> [])
              then Some (real (digits_val (ip @ fp)) / 10 ^ length fp)
              else None))"

definition py_float :: "string \<Rightarrow> real option" where
  "py_float s =
     (case s of
        [] \<Rightarrow> None
      | c # cs \<Rightarrow>
          if c = CHR ''-'' then map_option uminus (py_float_unsigned cs)
          else if c = CHR ''+'' then py_float_unsigned cs
          else py_float_unsigned s)"

text \<open>
  \<^verbatim>\<open>int(s)\<close> on a string without underscores: white space is skipped at both ends,
  then an optional sign and at least one digit. The white space of \<^verbatim>\<open>int\<close> is
  narrower than that of \<^verbatim>\<open>\s\<close>: the code points 28 to 31 are not skipped, and a
  name that holds one of them makes \<^verbatim>\<open>int\<close> raise.
\<close>

definition is_int_space :: "char \<Rightarrow> bool" where
  "is_int_space c = ((of_char c :: nat) \<in> {9, 10, 11, 12, 13, 32, 133, 160})"

definition strip :: "string \<Rightarrow> string" where
  "strip s = rev (dropWhile is_int_space (rev (dropWhile is_int_space s)))"

definition py_int :: "string \<Rightarrow> int option" where
  "py_int s =
     (let t = strip s;
          (neg, ds) = (case t of
                         [] \<Rightarrow> (False, [])
                       | c # cs \<Rightarrow> if c = CHR ''-'' then (True, cs)
                                  else if c = CHR ''+'' then (False, cs) else (False, t))
      in if ds \<noteq> [] \<and> list_all is_digit ds
         then Some (if neg then - int (digits_val ds) else int (digits_val ds))
         else None)"

text \<open>\<^verbatim>\<open>s.split(sep)\<close> for a one-character separator.\<close>

fun split_on :: "char \<Rightarrow> string \<Rightarrow> string list" where
  "split_on sep [] = [] # []"
| "split_on sep (c # cs) =
     (case split_on sep cs of
        [] \<Rightarrow> [c] # []
      | w # ws \<Rightarrow> if c = sep then [] # w # ws else (c # w) # ws)"

section \<open>The log parser of the aggregator (4_extract_energies.py)\<close>

text \<open>
  What the file system holds at the path of an output document: nothing, or a file with
  the size \<^verbatim>\<open>os.path.getsize\<close> reports and the text \<^verbatim>\<open>f.read()\<close> returns
  (\<open>None\<close> when opening or reading raises).
\<close>

datatype outcar_file = Absent | Present nat "string option"

record parse_result =
  energy_without_entropy :: "real option"
  energy_sigma_0 :: "real option"
  converged :: bool
  electronic_steps :: nat
  ionic_steps :: nat
  total_cpu_time :: "real option"
  error :: "py_error option"

definition initial_result :: parse_result where
  "initial_result =
     \<lparr>energy_without_entropy = None, energy_sigma_0 = None, converged = False,
      electronic_steps = 0, ionic_steps = 0, total_cpu_time = None, error = None\<rparr>"

text \<open>The classes \<^verbatim>\<open>[-\d\.]\<close> and \<^verbatim>\<open>[\d\.]\<close>.\<close>

definition cls_sign_digit_dot :: "char \<Rightarrow> bool" where
  "cls_sign_digit_dot c = (c = CHR ''-'' \<or> is_digit c \<or> c = CHR ''.'')"

definition cls_digit_dot :: "char \<Rightarrow> bool" where
  "cls_digit_dot c = (is_digit c \<or> c = CHR ''.'')"

text \<open>\<^verbatim>\<open>Total CPU time used \(sec\):\s*([\d\.]+)\<close>.\<close>

definition m_cpu_time :: matcher where
  "m_cpu_time s =
     (case strip_prefix ''Total CPU time used (sec):'' s of
        None \<Rightarrow> None
      | Some r1 \<Rightarrow>
          let r2 = dropWhile is_space r1; cap = takeWhile cls_digit_dot r2
          in if cap = [] then None
             else Some (cap, length s - length (dropWhile cls_digit_dot r2)))"

text \<open>\<^verbatim>\<open>energy  without entropy\s*=\s*([-\d\.]+)\<close> and \<^verbatim>\<open>energy\(sigma->0\)\s*=\s*([-\d\.]+)\<close>.\<close>

definition m_without_entropy :: matcher where
  "m_without_entropy = m_label_eq_class ''energy  without entropy'' cls_sign_digit_dot"

definition m_sigma_0 :: matcher where
  "m_sigma_0 = m_label_eq_class ''energy(sigma->0)'' cls_sign_digit_dot"

definition float_or_raise :: "string \<Rightarrow> py_error + real" where
  "float_or_raise s = (case py_float s of None \<Rightarrow> Inl (ValueError s) | Some v \<Rightarrow> Inr v)"

text \<open>\<^verbatim>\<open>if matches: field = float(matches[-1])\<close>: the field, or the exception of \<^verbatim>\<open>float\<close>.\<close>

definition last_match_value :: "matcher \<Rightarrow> string \<Rightarrow> py_error + real option" where
  "last_match_value m content =
     (case findall m content of
        [] \<Rightarrow> Inr None
      | c # cs \<Rightarrow> (case float_or_raise (last (c # cs)) of Inl e \<Rightarrow> Inl e | Inr v \<Rightarrow> Inr (Some v)))"

definition cpu_time_value :: "string \<Rightarrow> py_error + real option" where
  "cpu_time_value content =
     (if contains ''Total CPU time used'' content
      then (case search m_cpu_time content of
              None \<Rightarrow> Inr None
            | Some cap \<Rightarrow> (case float_or_raise cap of Inl e \<Rightarrow> Inl e | Inr v \<Rightarrow> Inr (Some v)))
      else Inr None)"

text \<open>
  The body of the \<^verbatim>\<open>try\<close> runs top to bottom; an exception leaves the fields assigned
  so far and sets \<open>error\<close>.
\<close>

definition extract_energy_from_outcar :: "outcar_file \<Rightarrow> parse_result" where
  "extract_energy_from_outcar f =
     (case f of
        Absent \<Rightarrow> initial_result\<lparr>error := Some OUTCAR_not_found\<rparr>
      | Present sz None \<Rightarrow> initial_result\<lparr>error := Some ReadError\<rparr>
      | Present sz (Some content) \<Rightarrow>
          (let r1 = initial_result\<lparr>converged := contains ''reached required accuracy'' content\<rparr>
           in case cpu_time_value content of
                Inl e \<Rightarrow> r1\<lparr>error := Some e\<rparr>
              | Inr cpu \<Rightarrow>
                  (let r2 = r1\<lparr>total_cpu_time := cpu\<rparr>
                   in case last_match_value m_without_entropy content of
                        Inl e \<Rightarrow> r2\<lparr>error := Some e\<rparr>
                      | Inr e0 \<Rightarrow>
                          (let r3 = r2\<lparr>energy_without_entropy := e0\<rparr>
                           in case last_match_value m_sigma_0 content of
                                Inl e \<Rightarrow> r3\<lparr>error := Some e\<rparr>
                              | Inr s0 \<Rightarrow>
                                  r3\<lparr>energy_sigma_0 := s0,
                                     electronic_steps := length (findall (m_literal ''DAV:'') content),
                                     ionic_steps := length (findall m_position_total_force content)\<rparr>))))"

section \<open>The result aggregator and the exporter (main of 4_extract_energies.py)\<close>

datatype status = Success | Failed

record run_row =
  Calculation :: string
  Index :: "int option"
  Energy_without_entropy_eV :: "real option"
  Energy_sigma_0_eV :: "real option"
  Converged :: bool
  Electronic_steps :: nat
  Ionic_steps :: nat
  CPU_time_sec :: "real option"
  Status :: status
  Error :: "py_error option"

text \<open>An entry of the calculations directory, with what lies at its \<^verbatim>\<open>OUTCAR\<close> path.\<close>

record dir_entry =
  name :: string
  is_dir :: bool
  outcar :: outcar_file

text \<open>
  \<^verbatim>\<open>int(calc_name.split('_')[1])\<close> inside \<^verbatim>\<open>try\<close>; \<open>None\<close> is the \<^verbatim>\<open>except\<close>
  branch (no second component, or \<^verbatim>\<open>int\<close> raises).
\<close>

definition calc_index :: "string \<Rightarrow> int option" where
  "calc_index calc_name =
     (case split_on CHR ''_'' calc_name of
        a # b # rest \<Rightarrow> py_int b
      | _ \<Rightarrow> None)"

definition make_row :: "dir_entry \<Rightarrow> run_row" where
  "make_row d =
     (let energy_info = extract_energy_from_outcar (outcar d)
      in \<lparr>Calculation = name d,
          Index = calc_index (name d),
          Energy_without_entropy_eV = energy_without_entropy energy_info,
          Energy_sigma_0_eV = energy_sigma_0 energy_info,
          Converged = converged energy_info,
          Electronic_steps = electronic_steps energy_info,
          Ionic_steps = ionic_steps energy_info,
          CPU_time_sec = total_cpu_time energy_info,
          Status = (if energy_without_entropy energy_info \<noteq> None then Success else Failed),
          Error = error energy_info\<rparr>)"

definition is_calc_dir :: "dir_entry \<Rightarrow> bool" where
  "is_calc_dir d = (is_dir d \<and> startswith (name d) ''calc_'')"

text \<open>
  \<^verbatim>\<open>sorted([d for d in base_dir.iterdir() if ...])\<close>: paths of one directory compare
  by name, strings by code point.
\<close>

definition calc_dirs_sorted :: "dir_entry list \<Rightarrow> dir_entry list" where
  "calc_dirs_sorted listing = sort_key name (filter is_calc_dir listing)"

definition aggregate :: "dir_entry list \<Rightarrow> run_row list" where
  "aggregate listing = map make_row (calc_dirs_sorted listing)"

text \<open>
  The exporter. What the environment decides is a parameter: whether the block under
  \<^verbatim>\<open>pd.ExcelWriter(..., engine='openpyxl')\<close> completes, raises \<^verbatim>\<open>ImportError\<close> or
  raises something else, and whether the two \<^verbatim>\<open>to_csv\<close> calls of the fallback
  complete. The statistics written to the summary are floating-point reductions and are
  left out of the summary's model; its three counts are kept.
\<close>

datatype excel_outcome = Excel_written | Excel_ImportError | Excel_raises py_error

record export_env =
  excel_attempt :: excel_outcome
  csv_write_ok :: bool
  summary_write_ok :: bool

record summary_counts =
  total_calculations :: nat
  successful :: nat
  failed :: nat

datatype sheet =
    All_Energies "run_row list"
  | Summary summary_counts
  | Failed_Calculations "run_row list"

datatype artifact =
    Excel_file "sheet list"
  | Csv_file "run_row list"
  | Summary_csv_file summary_counts

definition summary_of :: "run_row list \<Rightarrow> summary_counts" where
  "summary_of df =
     \<lparr>total_calculations = length df,
      successful = length (filter (\<lambda>r. Status r = Success) df),
      failed = length (filter (\<lambda>r. Status r = Failed) df)\<rparr>"

definition export :: "export_env \<Rightarrow> run_row list \<Rightarrow> py_error + artifact list" where
  "export env df =
     (let successful_calcs = filter (\<lambda>r. Status r = Success) df;
          failed_calcs = filter (\<lambda>r. Status r = Failed) df
      in case excel_attempt env of
           Excel_written \<Rightarrow>
             Inr [Excel_file ([All_Energies df]
                    @ (if 0 < length successful_calcs then [Summary (summary_of df)] else [])
                    @ (if 0 < length failed_calcs then [Failed_Calculations failed_calcs] else []))]
         | Excel_ImportError \<Rightarrow>
             if \<not> csv_write_ok env then Inl OSError
             else if 0 < length successful_calcs
                  then (if summary_write_ok env
                        then Inr [Csv_file df, Summary_csv_file (summary_of df)]
                        else Inl OSError)
                  else Inr [Csv_file df]
         | Excel_raises e \<Rightarrow> Inl e)"

text \<open>
  \<^verbatim>\<open>main\<close>: the listing is \<open>None\<close> when \<^verbatim>\<open>base_dir.iterdir()\<close> raises. A data frame
  built from an empty list of records has no columns, so \<^verbatim>\<open>df['Status']\<close> raises
  \<^verbatim>\<open>KeyError\<close> there; the success rate divides by the number of rows. Nothing in
  \<^verbatim>\<open>main\<close> catches either. The result is the returned table with the artifacts written.
\<close>

definition success_rate_guard :: "run_row list \<Rightarrow> py_error + unit" where
  "success_rate_guard df = (if length df = 0 then Inl ZeroDivisionError else Inr ())"

definition main_extract ::
  "dir_entry list option \<Rightarrow> export_env \<Rightarrow> py_error + (run_row list \<times> artifact list)" where
  "main_extract listing env =
     (case listing of
        None \<Rightarrow> Inl FileNotFoundError
      | Some entries \<Rightarrow>
          (let df = aggregate entries
           in if df = [] then Inl (KeyError ''Status'')
              else (case success_rate_guard df of
                      Inl e \<Rightarrow> Inl e
                    | Inr u \<Rightarrow>
                        (case export env df of
                           Inl e \<Rightarrow> Inl e
                         | Inr arts \<Rightarrow> Inr (df, arts)))))"

section \<open>The array assembler (5_create_npy.py)\<close>

datatype energy_type = Sigma0 | Free

text \<open>
  \<^verbatim>\<open>energy\(sigma->0\)\s*=\s*([-+]?\d+\.\d+)\<close> and
  \<^verbatim>\<open>free  energy   TOTEN\s*=\s*([-+]?\d+\.\d+)\s*eV\<close>.
\<close>

definition m_sigma_0_npy :: matcher where
  "m_sigma_0_npy = m_label_eq_decimal ''energy(sigma->0)'' []"

definition m_free_energy :: matcher where
  "m_free_energy = m_label_eq_decimal ''free  energy   TOTEN'' ''eV''"

text \<open>
  The assembler's own parser. Every exception inside it returns \<^verbatim>\<open>None\<close>, which is
  also what \<open>py_float\<close> gives when \<^verbatim>\<open>float\<close> raises.
\<close>

definition extract_energy_from_outcar_npy :: "outcar_file \<Rightarrow> energy_type \<Rightarrow> real option" where
  "extract_energy_from_outcar_npy f etype =
     (case f of
        Absent \<Rightarrow> None
      | Present sz txt \<Rightarrow>
          if sz < 1000 then None
          else (case txt of
                  None \<Rightarrow> None
                | Some content \<Rightarrow>
                    if \<not> contains ''reached required accuracy'' content then None
                    else (let sigma_matches =
                                (if etype = Sigma0 then findall m_sigma_0_npy content else [])
                          in if sigma_matches \<noteq> [] then py_float (last sigma_matches)
                             else (let matches = findall m_free_energy content
                                   in if matches \<noteq> [] then py_float (last matches)
                                      else None))))"

text \<open>
  A table as \<^verbatim>\<open>pd.read_csv\<close> returns it: the column names and the rows, a row giving
  the cell of each column, a missing cell being not-a-number. Only numeric columns are
  read by the assembler.
\<close>

record dataframe =
  columns :: "string list"
  rows :: "(string \<Rightarrow> pyfloat) list"

text \<open>\<^verbatim>\<open>int(x)\<close> on a float truncates towards zero.\<close>

definition int_of_float :: "real \<Rightarrow> int" where
  "int_of_float x = (if 0 \<le> x then \<lfloor>x\<rfloor> else \<lceil>x\<rceil>)"

definition py_int_of :: "pyfloat \<Rightarrow> py_error + int" where
  "py_int_of v = (case v of NaN \<Rightarrow> Inl (ValueError ''nan'') | Fl x \<Rightarrow> Inr (int_of_float x))"

text \<open>\<^verbatim>\<open>np.full(n, fill_value)\<close> and \<^verbatim>\<open>a[i] = v\<close> with Python's negative indices.\<close>

definition np_full :: "int \<Rightarrow> pyfloat \<Rightarrow> py_error + pyfloat list" where
  "np_full n v = (if n < 0 then Inl (ValueError ''negative dimensions'') else Inr (replicate (nat n) v))"

definition np_setitem :: "pyfloat list \<Rightarrow> int \<Rightarrow> pyfloat \<Rightarrow> py_error + pyfloat list" where
  "np_setitem a i v =
     (if 0 \<le> i \<and> i < int (length a) then Inr (a[nat i := v])
      else if i < 0 \<and> - int (length a) \<le> i then Inr (a[nat (int (length a) + i) := v])
      else Inl IndexError)"

text \<open>The numbers of a column, and \<^verbatim>\<open>df[col].max()\<close>, which skips missing cells.\<close>

definition float_values :: "string \<Rightarrow> (string \<Rightarrow> pyfloat) list \<Rightarrow> real list" where
  "float_values col rs = concat (map (\<lambda>r. case r col of NaN \<Rightarrow> [] | Fl x \<Rightarrow> [x]) rs)"

definition column_max :: "string \<Rightarrow> (string \<Rightarrow> pyfloat) list \<Rightarrow> pyfloat" where
  "column_max col rs = (case float_values col rs of [] \<Rightarrow> NaN | x # xs \<Rightarrow> Fl (fold max xs x))"

text \<open>
  \<^verbatim>\<open>df.sort_values(col)\<close>: ascending, rows with a missing key last. Rows with equal
  keys are kept in their order here; pandas does not promise that.
\<close>

definition sort_values :: "string \<Rightarrow> (string \<Rightarrow> pyfloat) list \<Rightarrow> (string \<Rightarrow> pyfloat) list" where
  "sort_values col rs =
     sort_key (\<lambda>r. case r col of NaN \<Rightarrow> 0 | Fl x \<Rightarrow> x) (filter (\<lambda>r. \<not> isnan (r col)) rs)
     @ filter (\<lambda>r. isnan (r col)) rs"

text \<open>The loop over \<^verbatim>\<open>df.iterrows()\<close>.\<close>

fun fill_from_rows ::
  "string \<Rightarrow> (string \<Rightarrow> pyfloat) list \<Rightarrow> pyfloat list \<Rightarrow> py_error + pyfloat list" where
  "fill_from_rows energy_col [] energies = Inr energies"
| "fill_from_rows energy_col (row # rest) energies =
     (if \<not> isnan (row ''Index'') \<and> \<not> isnan (row energy_col)
      then (case py_int_of (row ''Index'') of
              Inl e \<Rightarrow> Inl e
            | Inr idx \<Rightarrow>
                (case np_setitem energies idx (row energy_col) of
                   Inl e \<Rightarrow> Inl e
                 | Inr energies' \<Rightarrow> fill_from_rows energy_col rest energies'))
      else fill_from_rows energy_col rest energies)"

definition energy_columns :: "string list" where
  "energy_columns = [''Energy_eV'', ''Energy_without_entropy_eV'', ''Energy_sigma_0_eV'']"

definition select_energy_col :: "dataframe \<Rightarrow> string option" where
  "select_energy_col df = find (\<lambda>col. col \<in> set (columns df)) energy_columns"

definition fillna :: "pyfloat \<Rightarrow> pyfloat \<Rightarrow> pyfloat" where
  "fillna fill v = (if isnan v then fill else v)"

text \<open>The body of the \<^verbatim>\<open>try\<close> of \<^verbatim>\<open>create_energies_array_from_csv\<close> after the read.\<close>

definition energies_of_dataframe :: "dataframe \<Rightarrow> pyfloat \<Rightarrow> py_error + pyfloat list" where
  "energies_of_dataframe df fill =
     (case select_energy_col df of
        None \<Rightarrow> Inl (ValueError ''CSV file must contain energy column'')
      | Some energy_col \<Rightarrow>
          if ''Index'' \<in> set (columns df) \<and> (\<exists>r \<in> set (rows df). \<not> isnan (r ''Index''))
          then (let sorted_rows = sort_values ''Index'' (rows df)
                in case py_int_of (column_max ''Index'' sorted_rows) of
                     Inl e \<Rightarrow> Inl e
                   | Inr max_index \<Rightarrow>
                       (case np_full (max_index + 1) fill of
                          Inl e \<Rightarrow> Inl e
                        | Inr energies \<Rightarrow> fill_from_rows energy_col sorted_rows energies))
          else Inr (map (\<lambda>r. fillna fill (r energy_col)) (rows df)))"

text \<open>
  \<^verbatim>\<open>create_energies_array_from_csv\<close>, given what \<^verbatim>\<open>pd.read_csv\<close> returns or raises.
  Every exception is raised again as one \<^verbatim>\<open>Exception\<close>. The metadata dictionary holds
  floating-point reductions of the array and is left out.
\<close>

definition create_energies_array_from_csv ::
  "py_error + dataframe \<Rightarrow> pyfloat \<Rightarrow> py_error + pyfloat list" where
  "create_energies_array_from_csv read fill =
     (case read of
        Inl e \<Rightarrow> Inl (Failed_to_process_CSV e)
      | Inr df \<Rightarrow>
          (case energies_of_dataframe df fill of
             Inl e \<Rightarrow> Inl (Failed_to_process_CSV e)
           | Inr energies \<Rightarrow> Inr energies))"

text \<open>Direct extraction. The listing is in the order of \<^verbatim>\<open>os.listdir\<close>.\<close>

definition calc_data_of :: "dir_entry list \<Rightarrow> energy_type \<Rightarrow> (int \<times> real option) list" where
  "calc_data_of calc_dirs etype =
     concat (map (\<lambda>d. case calc_index (name d) of
                         None \<Rightarrow> []
                       | Some index \<Rightarrow>
                           [(index, extract_energy_from_outcar_npy (outcar d) etype)]) calc_dirs)"

fun fill_from_data :: "(int \<times> real option) list \<Rightarrow> pyfloat list \<Rightarrow> py_error + pyfloat list" where
  "fill_from_data [] energies = Inr energies"
| "fill_from_data ((index, energy) # rest) energies =
     (case energy of
        None \<Rightarrow> fill_from_data rest energies
      | Some e \<Rightarrow>
          (case np_setitem energies index (Fl e) of
             Inl err \<Rightarrow> Inl err
           | Inr energies' \<Rightarrow> fill_from_data rest energies'))"

definition max_index_of :: "(int \<times> real option) list \<Rightarrow> int" where
  "max_index_of calc_data = (case map fst calc_data of [] \<Rightarrow> 0 | i # is \<Rightarrow> fold max is i)"

definition create_energies_array_direct ::
  "dir_entry list \<Rightarrow> energy_type \<Rightarrow> pyfloat \<Rightarrow> py_error + pyfloat list" where
  "create_energies_array_direct listing etype fill =
     (let calc_dirs = filter is_calc_dir listing
      in if calc_dirs = [] then Inl No_calculation_directories_found
         else (let calc_data = sort_key fst (calc_data_of calc_dirs etype)
               in if calc_data \<noteq> []
                  then (case np_full (max_index_of calc_data + 1) fill of
                          Inl e \<Rightarrow> Inl e
                        | Inr energies \<Rightarrow> fill_from_data calc_data energies)
                  else Inr []))"

section \<open>main of 5_create_npy.py\<close>

record args =
  calculations_dir :: string
  csv_file :: "string option"
  output_name :: string
  fill_value :: pyfloat
  energy_type_arg :: energy_type
  verbose :: bool

text \<open>
  The file system as \<^verbatim>\<open>main\<close> sees it. A file is a saved array or any other file;
  of another file the model keeps what \<^verbatim>\<open>pd.read_csv\<close> returns or raises on it.
  \<open>fs_listdir\<close> is the listing of the calculations directory, \<open>fs_latest_csv\<close> what
  \<^verbatim>\<open>find_latest_csv\<close> returns for it, and \<open>fs_writable\<close> tells whether opening a path
  for writing succeeds.
\<close>

datatype file_content = Npy_file "pyfloat list" | Other_file "py_error + dataframe"

record filesystem =
  fs_isdir :: "string \<Rightarrow> bool"
  fs_files :: "string \<rightharpoonup> file_content"
  fs_writable :: "string \<Rightarrow> bool"
  fs_listdir :: "dir_entry list"
  fs_latest_csv :: "string option"

definition path_exists :: "filesystem \<Rightarrow> string \<Rightarrow> bool" where
  "path_exists fs p = (fs_files fs p \<noteq> None \<or> fs_isdir fs p)"

definition read_csv :: "filesystem \<Rightarrow> string \<Rightarrow> py_error + dataframe" where
  "read_csv fs p =
     (case fs_files fs p of
        None \<Rightarrow> Inl FileNotFoundError
      | Some (Npy_file a) \<Rightarrow> Inl (ValueError ''not a text file'')
      | Some (Other_file r) \<Rightarrow> r)"

text \<open>\<^verbatim>\<open>os.path.join(a, b)\<close> and \<^verbatim>\<open>s.endswith(suffix)\<close>.\<close>

definition path_join :: "string \<Rightarrow> string \<Rightarrow> string" where
  "path_join a b =
     (if startswith b ''/'' then b
      else if a = [] \<or> last a = CHR ''/'' then a @ b
      else a @ ''/'' @ b)"

definition endswith :: "string \<Rightarrow> string \<Rightarrow> bool" where
  "endswith s suffix = startswith (rev s) (rev suffix)"

text \<open>\<^verbatim>\<open>s.replace(old, new)\<close> for a non-empty \<open>old\<close>: every occurrence, from the left.\<close>

fun replace_from :: "string \<Rightarrow> string \<Rightarrow> nat \<Rightarrow> string \<Rightarrow> string" where
  "replace_from old new skip [] = []"
| "replace_from old new skip (c # cs) =
     (if 0 < skip then replace_from old new (skip - 1) cs
      else if startswith (c # cs) old then new @ replace_from old new (length old - 1) cs
      else c # replace_from old new 0 cs)"

definition replace :: "string \<Rightarrow> string \<Rightarrow> string \<Rightarrow> string" where
  "replace s old new = replace_from old new 0 s"

text \<open>
  \<^verbatim>\<open>np.save(file, arr)\<close> appends \<^verbatim>\<open>.npy\<close> to a file name that does not end with it;
  \<^verbatim>\<open>np.load(file)\<close> reads the name as given and raises on a missing file and on a file
  that is not a saved array.
\<close>

definition npy_path :: "string \<Rightarrow> string" where
  "npy_path p = (if endswith p ''.npy'' then p else p @ ''.npy'')"

definition np_save :: "filesystem \<Rightarrow> string \<Rightarrow> pyfloat list \<Rightarrow> py_error + filesystem" where
  "np_save fs p arr =
     (if fs_writable fs (npy_path p)
      then Inr (fs\<lparr>fs_files := (fs_files fs)(npy_path p \<mapsto> Npy_file arr)\<rparr>)
      else Inl OSError)"

definition np_load :: "filesystem \<Rightarrow> string \<Rightarrow> py_error + pyfloat list" where
  "np_load fs p =
     (case fs_files fs p of
        None \<Rightarrow> Inl FileNotFoundError
      | Some (Npy_file a) \<Rightarrow> Inr a
      | Some (Other_file r) \<Rightarrow> Inl (ValueError ''not a saved array''))"

text \<open>
  The metadata file is one line of text (the script writes a backslash and an \<open>n\<close>, not
  a line break). Read as a table it has one column, named by that line, and no rows; the
  model keeps the first words of the line as the name.
\<close>

definition write_metadata :: "filesystem \<Rightarrow> string \<Rightarrow> py_error + filesystem" where
  "write_metadata fs p =
     (if fs_writable fs p
      then Inr (fs\<lparr>fs_files := (fs_files fs)(p \<mapsto>
                   Other_file (Inr \<lparr>columns = [''NPY File Metadata''], rows = []\<rparr>))\<rparr>)
      else Inl OSError)"

text \<open>
  The choice of the data source. \<open>Inl 1\<close> is \<^verbatim>\<open>sys.exit(1)\<close>; an empty string is
  false in a condition, as is \<^verbatim>\<open>None\<close>.
\<close>

definition determine_source :: "args \<Rightarrow> filesystem \<Rightarrow> nat + string option" where
  "determine_source a fs =
     (case csv_file a of
        None \<Rightarrow> Inr (fs_latest_csv fs)
      | Some f \<Rightarrow>
          if f \<noteq> [] then (if \<not> path_exists fs f then Inl 1 else Inr (Some f))
          else Inr (fs_latest_csv fs))"

text \<open>\<^verbatim>\<open>if csv_file and os.path.exists(csv_file)\<close>, with the file to read.\<close>

definition csv_to_use :: "filesystem \<Rightarrow> string option \<Rightarrow> string option" where
  "csv_to_use fs csv =
     (case csv of
        None \<Rightarrow> None
      | Some f \<Rightarrow> if f \<noteq> [] \<and> path_exists fs f then Some f else None)"

definition create_array :: "args \<Rightarrow> filesystem \<Rightarrow> string option \<Rightarrow> py_error + pyfloat list" where
  "create_array a fs csv =
     (case csv_to_use fs csv of
        Some f \<Rightarrow> create_energies_array_from_csv (read_csv fs f) (fill_value a)
      | None \<Rightarrow> create_energies_array_direct (fs_listdir fs) (energy_type_arg a) (fill_value a))"

text \<open>
  Saving, writing the metadata and verifying. An exception of the first two reaches the
  outer handler, which exits with 1; the verification exits with 1 itself, both when the
  arrays differ and when loading raises. The result is the exit status with the file
  system left behind.
\<close>

definition verify_saved :: "filesystem \<Rightarrow> string \<Rightarrow> pyfloat list \<Rightarrow> nat" where
  "verify_saved fs output_path energies =
     (case np_load fs output_path of
        Inl e \<Rightarrow> 1
      | Inr loaded_energies \<Rightarrow> if array_equal energies loaded_energies True then 0 else 1)"

definition save_and_verify :: "args \<Rightarrow> filesystem \<Rightarrow> pyfloat list \<Rightarrow> nat \<times> filesystem" where
  "save_and_verify a fs energies =
     (let output_path = path_join (calculations_dir a) (output_name a)
      in case np_save fs output_path energies of
           Inl e \<Rightarrow> (1, fs)
         | Inr fs1 \<Rightarrow>
             (case write_metadata fs1 (replace output_path ''.npy'' ''_metadata.txt'') of
                Inl e \<Rightarrow> (1, fs1)
              | Inr fs2 \<Rightarrow> (verify_saved fs2 output_path energies, fs2)))"

definition main_npy :: "args \<Rightarrow> filesystem \<Rightarrow> nat \<times> filesystem" where
  "main_npy a fs =
     (if \<not> fs_isdir fs (calculations_dir a) then (1, fs)
      else (case determine_source a fs of
              Inl status \<Rightarrow> (status, fs)
            | Inr csv \<Rightarrow>
                (case create_array a fs csv of
                   Inl e \<Rightarrow> (1, fs)
                 | Inr energies \<Rightarrow> save_and_verify a fs energies)))"

section \<open>Concrete documents, directories and tables\<close>

text \<open>
  The inputs at which the statements below are evaluated. \<open>header n\<close> stands for the
  first \<open>n\<close> bytes of an output document, before any of the lines the parsers look for.
  The text of \<open>text_two_steps\<close> is the scenario of two ionic steps with the convergence
  marker; \<open>doc_small\<close> is a document of 500 bytes.
\<close>

definition header :: "nat \<Rightarrow> string" where
  "header n = replicate n CHR ''#''"

definition text_two_steps :: string where
  "text_two_steps =
     ''energy  without entropy= -10.5 energy  without entropy= -12.345 energy(sigma->0) = -12.25 reached required accuracy''"

definition doc_two_steps :: string where
  "doc_two_steps = header 1000 @ text_two_steps"

definition doc_small :: string where
  "doc_small = header 385 @ text_two_steps"

definition doc_header_only :: string where
  "doc_header_only = header 500"

definition doc_primary_only :: string where
  "doc_primary_only = ''energy  without entropy= -10.5''"


definition run_0000 :: dir_entry where
  "run_0000 = \<lparr>name = ''calc_0000'', is_dir = True, outcar = Absent\<rparr>"

definition run_0002 :: dir_entry where
  "run_0002 = \<lparr>name = ''calc_0002'', is_dir = True,
               outcar = Present (length doc_two_steps) (Some doc_two_steps)\<rparr>"

definition run_small :: dir_entry where
  "run_small = \<lparr>name = ''calc_0004'', is_dir = True,
                outcar = Present (length doc_small) (Some doc_small)\<rparr>"

definition run_primary_only :: dir_entry where
  "run_primary_only = \<lparr>name = ''calc_0005'', is_dir = True,
                       outcar = Present (length doc_primary_only) (Some doc_primary_only)\<rparr>"

definition run_header_only :: dir_entry where
  "run_header_only = \<lparr>name = ''calc_0006'', is_dir = True,
                      outcar = Present (length doc_header_only) (Some doc_header_only)\<rparr>"

definition run_unnumbered :: dir_entry where
  "run_unnumbered = \<lparr>name = ''calc_abc'', is_dir = True, outcar = Absent\<rparr>"

definition plain_file :: dir_entry where
  "plain_file = \<lparr>name = ''README.md'', is_dir = False, outcar = Absent\<rparr>"

definition env_excel_ok :: export_env where
  "env_excel_ok = \<lparr>excel_attempt = Excel_written, csv_write_ok = True, summary_write_ok = True\<rparr>"

definition env_no_openpyxl :: export_env where
  "env_no_openpyxl =
     \<lparr>excel_attempt = Excel_ImportError, csv_write_ok = True, summary_write_ok = True\<rparr>"

definition env_excel_write_fails :: export_env where
  "env_excel_write_fails =
     \<lparr>excel_attempt = Excel_raises OSError, csv_write_ok = True, summary_write_ok = True\<rparr>"

definition table_row :: "pyfloat \<Rightarrow> pyfloat \<Rightarrow> string \<Rightarrow> pyfloat" where
  "table_row idx e col =
     (if col = ''Index'' then idx
      else if col = ''Energy_without_entropy_eV'' then e
      else NaN)"

definition table_0_2 :: dataframe where
  "table_0_2 =
     \<lparr>columns = [''Calculation'', ''Index'', ''Energy_without_entropy_eV'', ''Energy_sigma_0_eV'',
                 ''Converged'', ''Electronic_steps'', ''Ionic_steps'', ''CPU_time_sec'', ''Status'',
                 ''Error''],
      rows = [table_row (Fl 2) (Fl (-12.345)), table_row NaN NaN, table_row (Fl 0) (Fl (-10.5))]\<rparr>"

definition default_args :: args where
  "default_args =
     \<lparr>calculations_dir = ''calculations'', csv_file = None, output_name = ''energies.npy'',
      fill_value = NaN, energy_type_arg = Sigma0, verbose = False\<rparr>"

definition args_without_suffix :: args where
  "args_without_suffix = default_args\<lparr>output_name := ''energies''\<rparr>"

definition fs_with_table :: filesystem where
  "fs_with_table =
     \<lparr>fs_isdir = (\<lambda>p. p = ''calculations''),
      fs_files = [''calculations/energies_1.csv'' \<mapsto> Other_file (Inr table_0_2)],
      fs_writable = (\<lambda>p. True),
      fs_listdir = [run_0002, run_0000],
      fs_latest_csv = Some ''calculations/energies_1.csv''\<rparr>"

definition fs_without_table :: filesystem where
  "fs_without_table =
     \<lparr>fs_isdir = (\<lambda>p. p = ''calculations''),
      fs_files = Map.empty,
      fs_writable = (\<lambda>p. True),
      fs_listdir = [run_0002, run_0000],
      fs_latest_csv = None\<rparr>"

section \<open>Evaluation of the parsers on the concrete documents\<close>

lemma findall_from_pad:
  "(\<And>t. m (c # t) = None) \<Longrightarrow> findall_from m 0 (replicate n c @ s) = findall_from m 0 s"
  by (induction n) auto

lemma findall_header:
  "(\<And>t. m (CHR ''#'' # t) = None) \<Longrightarrow> findall m (header n @ s) = findall m s"
  by (simp add: findall_def header_def findall_from_pad)

lemma search_header:
  "(\<And>t. m (CHR ''#'' # t) = None) \<Longrightarrow> search m (header n @ s) = search m s"
  unfolding header_def by (induction n) auto

lemma contains_header:
  "sub \<noteq> [] \<Longrightarrow> hd sub \<noteq> CHR ''#'' \<Longrightarrow> contains sub (header n @ s) = contains sub s"
  unfolding header_def by (induction n) (auto simp: startswith_def neq_Nil_conv)

lemma length_header: "length (header n) = n"
  by (simp add: header_def)

lemmas matcher_defs =
  m_without_entropy_def m_sigma_0_def m_cpu_time_def m_literal_def m_position_total_force_def
  m_sigma_0_npy_def m_free_energy_def m_label_eq_class_def m_label_eq_decimal_def
  m_signed_decimal_def cls_sign_digit_dot_def cls_digit_dot_def is_space_def is_digit_def Let_def

lemma no_match_at_hash:
  "m_without_entropy (CHR ''#'' # t) = None"
  "m_sigma_0 (CHR ''#'' # t) = None"
  "m_cpu_time (CHR ''#'' # t) = None"
  "m_literal ''DAV:'' (CHR ''#'' # t) = None"
  "m_position_total_force (CHR ''#'' # t) = None"
  "m_sigma_0_npy (CHR ''#'' # t) = None"
  "m_free_energy (CHR ''#'' # t) = None"
  by (simp_all add: matcher_defs)

lemmas float_defs =
  py_float_def py_float_unsigned_def digits_val_def digit_val_def is_digit_def Let_def

lemma scan_text_two_steps:
  "findall m_without_entropy text_two_steps = [''-10.5'', ''-12.345'']"
  "findall m_sigma_0 text_two_steps = [''-12.25'']"
  "findall m_sigma_0_npy text_two_steps = [''-12.25'']"
  "contains ''reached required accuracy'' text_two_steps"
  "\<not> contains ''Total CPU time used'' text_two_steps"
  unfolding text_two_steps_def
  by (simp_all add: findall_def matcher_defs startswith_def)

lemma scan_header_two_steps:
  "findall m_without_entropy (header n @ text_two_steps) = [''-10.5'', ''-12.345'']"
  "findall m_sigma_0 (header n @ text_two_steps) = [''-12.25'']"
  "findall m_sigma_0_npy (header n @ text_two_steps) = [''-12.25'']"
  "contains ''reached required accuracy'' (header n @ text_two_steps)"
  "\<not> contains ''Total CPU time used'' (header n @ text_two_steps)"
  by (simp_all add: findall_header contains_header no_match_at_hash scan_text_two_steps)

lemma scan_primary_only:
  "findall m_without_entropy doc_primary_only = [''-10.5'']"
  "findall m_sigma_0 doc_primary_only = []"
  "findall (m_literal ''DAV:'') doc_primary_only = []"
  "findall m_position_total_force doc_primary_only = []"
  "\<not> contains ''reached required accuracy'' doc_primary_only"
  "\<not> contains ''Total CPU time used'' doc_primary_only"
  unfolding doc_primary_only_def
  by (simp_all add: findall_def matcher_defs startswith_def)


lemma float_values_of_captures:
  "py_float ''-12.345'' = Some (-12.345)"
  "py_float ''-12.25'' = Some (-12.25)"
  "py_float ''-10.5'' = Some (-10.5)"
  "py_float ''-'' = None"
  by (simp_all add: float_defs)

lemma length_docs:
  "length doc_two_steps = 1115"
  "length doc_small = 500"
  by (simp_all add: doc_two_steps_def doc_small_def length_header text_two_steps_def)


lemma scan_header_only:
  "(\<And>t. m (CHR ''#'' # t) = None) \<Longrightarrow> findall m (header n) = []"
  using findall_header [of m n "[]"] by (simp add: findall_def)

section \<open>What the aggregator's parser returns\<close>

lemma extract_without_entropy:
  assumes "cpu_time_value content = Inr cpu"
  shows "energy_without_entropy (extract_energy_from_outcar (Present sz (Some content))) =
           (case findall m_without_entropy content of
              [] \<Rightarrow> None
            | c # cs \<Rightarrow> py_float (last (c # cs)))"
  using assms
  by (simp add: extract_energy_from_outcar_def last_match_value_def float_or_raise_def
      initial_result_def Let_def split: list.splits option.splits sum.splits)

lemma extract_sigma_0:
  assumes "cpu_time_value content = Inr cpu"
    and "last_match_value m_without_entropy content = Inr e0"
  shows "energy_sigma_0 (extract_energy_from_outcar (Present sz (Some content))) =
           (case findall m_sigma_0 content of
              [] \<Rightarrow> None
            | c # cs \<Rightarrow> py_float (last (c # cs)))"
  using assms
  by (simp add: extract_energy_from_outcar_def last_match_value_def float_or_raise_def
      initial_result_def Let_def split: list.splits option.splits sum.splits)



lemma extract_converged:
  "converged (extract_energy_from_outcar (Present sz (Some content))) =
     contains ''reached required accuracy'' content"
  by (simp add: extract_energy_from_outcar_def initial_result_def Let_def split: sum.splits)


lemma cpu_time_value_absent:
  "\<not> contains ''Total CPU time used'' content \<Longrightarrow> cpu_time_value content = Inr None"
  by (simp add: cpu_time_value_def)

lemma make_row_fields:
  "Calculation (make_row d) = name d"
  "Index (make_row d) = calc_index (name d)"
  "Energy_without_entropy_eV (make_row d) = energy_without_entropy (extract_energy_from_outcar (outcar d))"
  "Energy_sigma_0_eV (make_row d) = energy_sigma_0 (extract_energy_from_outcar (outcar d))"
  "Converged (make_row d) = converged (extract_energy_from_outcar (outcar d))"
  "CPU_time_sec (make_row d) = total_cpu_time (extract_energy_from_outcar (outcar d))"
  "Error (make_row d) = error (extract_energy_from_outcar (outcar d))"
  "Status (make_row d) =
     (if energy_without_entropy (extract_energy_from_outcar (outcar d)) \<noteq> None then Success else Failed)"
  by (simp_all add: make_row_def Let_def)

lemma extract_absent:
  "extract_energy_from_outcar Absent = initial_result\<lparr>error := Some OUTCAR_not_found\<rparr>"
  by (simp add: extract_energy_from_outcar_def)

lemma parse_primary_only:
  "extract_energy_from_outcar (Present n (Some doc_primary_only)) =
     \<lparr>energy_without_entropy = Some (-10.5), energy_sigma_0 = None, converged = False,
      electronic_steps = 0, ionic_steps = 0, total_cpu_time = None, error = None\<rparr>"
  by (simp add: extract_energy_from_outcar_def cpu_time_value_def last_match_value_def
      float_or_raise_def scan_primary_only float_values_of_captures initial_result_def)

lemma set_aggregate: "set (aggregate entries) = make_row ` {d \<in> set entries. is_calc_dir d}"
  by (auto simp: aggregate_def calc_dirs_sorted_def)

lemma main_extract_table:
  "main_extract listing env = Inr (df, arts) \<Longrightarrow> \<exists>entries. listing = Some entries \<and> df = aggregate entries"
  by (auto simp: main_extract_def Let_def split: option.splits if_splits sum.splits)

lemma aggregate_single: "is_calc_dir d \<Longrightarrow> aggregate [d] = [make_row d]"
  by (simp add: aggregate_def calc_dirs_sorted_def)

lemma calc_dir_examples:
  "is_calc_dir run_0000" "is_calc_dir run_0002" "is_calc_dir run_small"
  "is_calc_dir run_primary_only" "is_calc_dir run_header_only" "is_calc_dir run_unnumbered"
  "\<not> is_calc_dir plain_file"
  by (simp_all add: is_calc_dir_def startswith_def run_0000_def run_0002_def run_small_def
      run_primary_only_def run_header_only_def run_unnumbered_def plain_file_def)

lemma calc_index_examples:
  "calc_index ''calc_0000'' = Some 0"
  "calc_index ''calc_0002'' = Some 2"
  "calc_index ''calc_abc'' = None"
  by (simp_all add: calc_index_def py_int_def strip_def is_int_space_def is_digit_def digits_val_def
      digit_val_def Let_def)

section \<open>The aggregator: status, unparseable names, empty scans, export\<close>

text \<open>
  Claim C7. For every run the aggregator processes, the row's status is \<open>Success\<close>
  exactly when the energy without entropy is present; no other field enters the status.
  The instance that follows is a run whose document holds nothing but one energy without
  entropy: no sigma energy, no CPU time, no convergence marker, and the status is
  \<open>Success\<close>.
\<close>

theorem status_success_iff_primary_energy:
  assumes "main_extract listing env = Inr (df, arts)" and "r \<in> set df"
  shows "(Status r = Success) = (Energy_without_entropy_eV r \<noteq> None)"
proof -
  from assms(1) obtain entries where "df = aggregate entries"
    using main_extract_table by blast
  with assms(2) obtain d where "r = make_row d"
    by (auto simp: set_aggregate)
  then show ?thesis
    by (simp add: make_row_fields)
qed

theorem status_success_iff_primary_energy_witness:
  "main_extract (Some [run_primary_only]) env_excel_ok =
     Inr ([make_row run_primary_only],
          [Excel_file [All_Energies [make_row run_primary_only],
                       Summary \<lparr>total_calculations = 1, successful = 1, failed = 0\<rparr>]])
   \<and> make_row run_primary_only \<in> set [make_row run_primary_only]
   \<and> Status (make_row run_primary_only) = Success
   \<and> Energy_without_entropy_eV (make_row run_primary_only) = Some (-10.5)
   \<and> Energy_sigma_0_eV (make_row run_primary_only) = None
   \<and> CPU_time_sec (make_row run_primary_only) = None
   \<and> \<not> Converged (make_row run_primary_only)"
proof -
  have fields: "Energy_without_entropy_eV (make_row run_primary_only) = Some (-10.5)"
    "Energy_sigma_0_eV (make_row run_primary_only) = None"
    "CPU_time_sec (make_row run_primary_only) = None"
    "\<not> Converged (make_row run_primary_only)"
    by (simp_all add: make_row_fields run_primary_only_def parse_primary_only)
  have status: "Status (make_row run_primary_only) = Success"
    using fields(1) by (simp add: make_row_fields)
  have run: "main_extract (Some [run_primary_only]) env_excel_ok =
     Inr ([make_row run_primary_only],
          [Excel_file [All_Energies [make_row run_primary_only],
                       Summary \<lparr>total_calculations = 1, successful = 1, failed = 0\<rparr>]])"
    by (simp add: main_extract_def aggregate_single calc_dir_examples success_rate_guard_def
        export_def env_excel_ok_def summary_of_def status Let_def)
  have mem: "make_row run_primary_only \<in> set [make_row run_primary_only]"
    by simp
  from status_success_iff_primary_energy [OF run mem] fields run status show ?thesis
    by simp
qed

text \<open>
  Claim C10. When the base directory holds no directory whose name starts with
  \<^verbatim>\<open>calc_\<close>, \<^verbatim>\<open>main\<close> of the aggregator does not return an empty table: it raises,
  at the first access to the \<^verbatim>\<open>Status\<close> column of the empty data frame, before the
  success rate is computed.
\<close>

theorem no_calculation_directories_raises:
  assumes "filter is_calc_dir entries = []"
  shows "main_extract (Some entries) env = Inl (KeyError ''Status'')"
  using assms by (simp add: main_extract_def aggregate_def calc_dirs_sorted_def)

theorem no_calculation_directories_raises_witness:
  "filter is_calc_dir [plain_file] = []
   \<and> main_extract (Some [plain_file]) env_excel_ok = Inl (KeyError ''Status'')"
proof -
  have h: "filter is_calc_dir [plain_file] = []"
    by (simp add: calc_dir_examples)
  from no_calculation_directories_raises [OF h] h show ?thesis
    by simp
qed


lemma calc_data_of_drop_unparseable:
  "calc_index (name d) = None \<Longrightarrow>
   calc_data_of (filter (\<lambda>x. x \<noteq> d) ds) etype = calc_data_of ds etype"
  by (induction ds) (auto simp: calc_data_of_def)

text \<open>
  Claim C5, as amended. A run directory whose name gives no integer is not excluded from
  the aggregator's table: it gets a row with a null identifier, and every selected
  directory gets its row, so the scan is not aborted. It is the direct extraction of the
  assembler that leaves such a run out: its list of identifiers and energies is the one
  it would build if the directory were not there.
\<close>

theorem unparseable_run_kept_with_null_identifier:
  assumes "d \<in> set entries" and "is_calc_dir d" and "calc_index (name d) = None"
  shows "(\<exists>r \<in> set (aggregate entries). Calculation r = name d \<and> Index r = None)
       \<and> map Calculation (aggregate entries) = map name (calc_dirs_sorted entries)
       \<and> (\<forall>env df arts. main_extract (Some entries) env = Inr (df, arts) \<longrightarrow>
             (\<exists>r \<in> set df. Calculation r = name d \<and> Index r = None))
       \<and> (\<forall>etype. calc_data_of (filter (\<lambda>x. x \<noteq> d) (filter is_calc_dir entries)) etype =
                    calc_data_of (filter is_calc_dir entries) etype)"
proof -
  have row: "\<exists>r \<in> set (aggregate entries). Calculation r = name d \<and> Index r = None"
    using assms by (auto simp: set_aggregate make_row_fields)
  have names: "map Calculation (aggregate entries) = map name (calc_dirs_sorted entries)"
    by (simp add: aggregate_def make_row_fields comp_def)
  have main: "\<forall>env df arts. main_extract (Some entries) env = Inr (df, arts) \<longrightarrow>
             (\<exists>r \<in> set df. Calculation r = name d \<and> Index r = None)"
    using row main_extract_table by fastforce
  show ?thesis
    using row names main calc_data_of_drop_unparseable [OF assms(3)] by blast
qed

theorem unparseable_run_kept_with_null_identifier_witness:
  "run_unnumbered \<in> set [run_unnumbered, run_0000]
   \<and> is_calc_dir run_unnumbered
   \<and> calc_index (name run_unnumbered) = None
   \<and> (\<exists>r \<in> set (aggregate [run_unnumbered, run_0000]).
         Calculation r = name run_unnumbered \<and> Index r = None)
   \<and> calc_data_of (filter (\<lambda>x. x \<noteq> run_unnumbered) (filter is_calc_dir [run_unnumbered, run_0000])) Sigma0 =
       calc_data_of (filter is_calc_dir [run_unnumbered, run_0000]) Sigma0"
proof -
  have h1: "run_unnumbered \<in> set [run_unnumbered, run_0000]"
    by simp
  have h2: "is_calc_dir run_unnumbered"
    by (rule calc_dir_examples)
  have h3: "calc_index (name run_unnumbered) = None"
    by (simp add: run_unnumbered_def calc_index_examples)
  from unparseable_run_kept_with_null_identifier [OF h1 h2 h3] h1 h2 h3 show ?thesis
    by blast
qed

text \<open>
  The claim as stated fails: the directory \<^verbatim>\<open>calc_abc\<close> has a row in the table.
\<close>

theorem unparseable_run_excluded_counterexample:
  "map (\<lambda>r. (Calculation r, Index r)) (aggregate [run_unnumbered, run_0000]) =
     [(''calc_0000'', Some 0), (''calc_abc'', None)]"
  by (simp add: aggregate_def calc_dirs_sorted_def calc_dir_examples make_row_fields)
     (simp add: run_unnumbered_def run_0000_def calc_index_examples)

text \<open>
  Claim C8, as amended. The exporter falls back to the flat format when the rich writer
  is unavailable, that is when the block raises \<^verbatim>\<open>ImportError\<close>: it writes the main
  table and, when at least one run succeeded, the summary. A failure of either write of
  the fallback is fatal. Any other exception of the rich write is fatal too, and no
  fallback is written.
\<close>

theorem export_falls_back_on_import_error_only:
  "(excel_attempt env = Excel_ImportError \<and> csv_write_ok env \<and> summary_write_ok env \<longrightarrow>
      export env df =
        Inr (Csv_file df #
             (if \<exists>r \<in> set df. Status r = Success then [Summary_csv_file (summary_of df)] else [])))
   \<and> (excel_attempt env = Excel_ImportError \<and> \<not> csv_write_ok env \<longrightarrow> export env df = Inl OSError)
   \<and> (excel_attempt env = Excel_ImportError \<and> \<not> summary_write_ok env
        \<and> (\<exists>r \<in> set df. Status r = Success) \<longrightarrow> export env df = Inl OSError)
   \<and> (excel_attempt env = Excel_raises e \<longrightarrow> export env df = Inl e)"
  by (auto simp: export_def Let_def filter_empty_conv)

theorem export_falls_back_on_import_error_only_witness:
  "excel_attempt env_no_openpyxl = Excel_ImportError
   \<and> csv_write_ok env_no_openpyxl \<and> summary_write_ok env_no_openpyxl
   \<and> (\<exists>r \<in> set [make_row run_primary_only, make_row run_0000]. Status r = Success)
   \<and> export env_no_openpyxl [make_row run_primary_only, make_row run_0000] =
       Inr [Csv_file [make_row run_primary_only, make_row run_0000],
            Summary_csv_file (summary_of [make_row run_primary_only, make_row run_0000])]
   \<and> excel_attempt env_excel_write_fails = Excel_raises OSError
   \<and> export env_excel_write_fails [make_row run_primary_only, make_row run_0000] = Inl OSError"
proof -
  have h: "excel_attempt env_no_openpyxl = Excel_ImportError"
    "csv_write_ok env_no_openpyxl" "summary_write_ok env_no_openpyxl"
    by (simp_all add: env_no_openpyxl_def)
  have s: "\<exists>r \<in> set [make_row run_primary_only, make_row run_0000]. Status r = Success"
    by (simp add: make_row_fields run_primary_only_def parse_primary_only)
  have f: "excel_attempt env_excel_write_fails = Excel_raises OSError"
    by (simp add: env_excel_write_fails_def)
  from export_falls_back_on_import_error_only
         [of env_no_openpyxl "[make_row run_primary_only, make_row run_0000]" OSError]
       export_falls_back_on_import_error_only
         [of env_excel_write_fails "[make_row run_primary_only, make_row run_0000]" OSError]
       h s f
  show ?thesis
    by simp
qed

text \<open>
  The claim as stated fails: a rich write that raises \<^verbatim>\<open>OSError\<close> ends the exporter,
  although the flat file could be written.
\<close>

theorem export_fallback_on_write_failure_counterexample:
  "excel_attempt env_excel_write_fails = Excel_raises OSError
   \<and> csv_write_ok env_excel_write_fails
   \<and> export env_excel_write_fails [make_row run_0000] = Inl OSError"
  by (simp add: export_def env_excel_write_fails_def)

section \<open>The parsers: missing and small documents, the last occurrence\<close>

lemma status_failed_without_match:
  assumes "outcar d = Present sz (Some content)" and "findall m_without_entropy content = []"
  shows "Status (make_row d) = Failed"
proof (cases "cpu_time_value content")
  case (Inl e)
  then show ?thesis
    using assms by (simp add: make_row_fields extract_energy_from_outcar_def initial_result_def)
next
  case (Inr cpu)
  then show ?thesis
    using assms by (simp add: make_row_fields extract_without_entropy)
qed

text \<open>
  Claim C6, as amended. For a missing document both parsers return no energy without
  raising, and the aggregator classifies the run as \<open>Failed\<close>. For a document below
  1000 bytes the assembler's parser returns no energy. The aggregator's parser applies no
  size threshold: a document of any size is classified \<open>Failed\<close> when it holds no
  match of the without-entropy pattern, as a document of 500 bytes of header does.
\<close>

theorem missing_or_small_document:
  "extract_energy_from_outcar_npy Absent etype = None
   \<and> (sz < 1000 \<longrightarrow> extract_energy_from_outcar_npy (Present sz txt) etype = None)
   \<and> (outcar d = Absent \<longrightarrow>
        Status (make_row d) = Failed \<and> Energy_without_entropy_eV (make_row d) = None
        \<and> Error (make_row d) = Some OUTCAR_not_found)
   \<and> (outcar d' = Present sz' (Some content) \<and> findall m_without_entropy content = [] \<longrightarrow>
        Status (make_row d') = Failed)"
  using status_failed_without_match [of d' sz' content]
  by (simp add: extract_energy_from_outcar_npy_def make_row_fields extract_absent initial_result_def)

theorem missing_or_small_document_witness:
  "(500::nat) < 1000
   \<and> extract_energy_from_outcar_npy (Present 500 (Some doc_small)) Sigma0 = None
   \<and> outcar run_0000 = Absent
   \<and> Status (make_row run_0000) = Failed
   \<and> outcar run_header_only = Present 500 (Some doc_header_only)
   \<and> findall m_without_entropy doc_header_only = []
   \<and> Status (make_row run_header_only) = Failed"
proof -
  have h1: "outcar run_0000 = Absent"
    by (simp add: run_0000_def)
  have h2: "outcar run_header_only = Present 500 (Some doc_header_only)"
    by (simp add: run_header_only_def doc_header_only_def length_header)
  have h3: "findall m_without_entropy doc_header_only = []"
    by (simp add: doc_header_only_def scan_header_only no_match_at_hash)
  from missing_or_small_document
         [of Sigma0 500 "Some doc_small" run_0000 run_header_only 500 doc_header_only] h1 h2 h3
  show ?thesis
    by simp
qed

text \<open>
  The claim as stated fails: a document of 500 bytes that holds energy lines is parsed by
  the aggregator like any other, and the run is classified \<open>Success\<close>.
\<close>

theorem small_document_failed_counterexample:
  "outcar run_small = Present 500 (Some doc_small)
   \<and> Energy_without_entropy_eV (make_row run_small) = Some (-12.345)
   \<and> Status (make_row run_small) = Success"
proof -
  have cpu: "cpu_time_value doc_small = Inr None"
    by (simp add: cpu_time_value_absent doc_small_def scan_header_two_steps)
  have scan: "findall m_without_entropy doc_small = [''-10.5'', ''-12.345'']"
    by (simp add: doc_small_def scan_header_two_steps)
  have "energy_without_entropy (extract_energy_from_outcar (Present 500 (Some doc_small))) =
          Some (-12.345)"
    by (simp add: extract_without_entropy [OF cpu] scan float_values_of_captures)
  then show ?thesis
    by (simp add: run_small_def length_docs make_row_fields)
qed


lemma extract_npy_sigma_last:
  assumes "1000 \<le> sz" and "contains ''reached required accuracy'' content"
    and "findall m_sigma_0_npy content \<noteq> []"
  shows "extract_energy_from_outcar_npy (Present sz (Some content)) Sigma0 =
           py_float (last (findall m_sigma_0_npy content))"
  using assms by (simp add: extract_energy_from_outcar_npy_def Let_def)




section \<open>The assembler: direct extraction against the aggregator\<close>

lemma calc_data_of_single:
  "calc_data_of [d] etype =
     (case Index (make_row d) of
        None \<Rightarrow> []
      | Some i \<Rightarrow> [(i, extract_energy_from_outcar_npy (outcar d) etype)])"
  by (simp add: calc_data_of_def make_row_fields)

text \<open>
  Claim C4, as amended. Direct extraction derives the identifier of a run as the
  aggregator does, and leaves the run out when there is none. Its energy for the type
  \<open>Sigma0\<close> equals the sigma energy the aggregator records for the run when the document
  has at least 1000 bytes, holds the convergence marker, has a match of the sigma pattern,
  the patterns of the two scripts capture the same texts in it, and the aggregator's parser
  reaches the sigma field (nothing raised before). For a smaller document and for one
  without the marker direct extraction gives no energy, whatever the aggregator records;
  for the type \<open>Free\<close> it gives the last occurrence of the free-energy line, which is
  none of the aggregator's fields.
\<close>

theorem direct_extraction_agrees_under_gates:
  "(outcar d = Present sz (Some content)
    \<and> 1000 \<le> sz
    \<and> contains ''reached required accuracy'' content
    \<and> cpu_time_value content = Inr cpu
    \<and> last_match_value m_without_entropy content = Inr e0
    \<and> findall m_sigma_0_npy content = findall m_sigma_0 content
    \<and> findall m_sigma_0 content \<noteq> [] \<longrightarrow>
      extract_energy_from_outcar_npy (outcar d) Sigma0 = Energy_sigma_0_eV (make_row d))
   \<and> calc_data_of [d] etype =
       (case Index (make_row d) of
          None \<Rightarrow> []
        | Some i \<Rightarrow> [(i, extract_energy_from_outcar_npy (outcar d) etype)])
   \<and> (outcar d = Present sz (Some content)
        \<and> (sz < 1000 \<or> \<not> contains ''reached required accuracy'' content) \<longrightarrow>
        extract_energy_from_outcar_npy (outcar d) etype = None)
   \<and> (outcar d = Present sz (Some content)
        \<and> 1000 \<le> sz \<and> contains ''reached required accuracy'' content \<longrightarrow>
        extract_energy_from_outcar_npy (outcar d) Free =
          (if findall m_free_energy content = [] then None
           else py_float (last (findall m_free_energy content))))"
proof (intro conjI impI)
  assume h: "outcar d = Present sz (Some content)
    \<and> 1000 \<le> sz
    \<and> contains ''reached required accuracy'' content
    \<and> cpu_time_value content = Inr cpu
    \<and> last_match_value m_without_entropy content = Inr e0
    \<and> findall m_sigma_0_npy content = findall m_sigma_0 content
    \<and> findall m_sigma_0 content \<noteq> []"
  then have "extract_energy_from_outcar_npy (Present sz (Some content)) Sigma0 =
          py_float (last (findall m_sigma_0 content))"
    by (simp add: extract_npy_sigma_last)
  moreover from h have "energy_sigma_0 (extract_energy_from_outcar (Present sz (Some content))) =
          py_float (last (findall m_sigma_0 content))"
    by (simp add: extract_sigma_0 [of content cpu e0] split: list.splits)
  ultimately show "extract_energy_from_outcar_npy (outcar d) Sigma0 = Energy_sigma_0_eV (make_row d)"
    using h by (simp add: make_row_fields)
next
  show "calc_data_of [d] etype =
       (case Index (make_row d) of
          None \<Rightarrow> []
        | Some i \<Rightarrow> [(i, extract_energy_from_outcar_npy (outcar d) etype)])"
    by (rule calc_data_of_single)
next
  assume "outcar d = Present sz (Some content)
        \<and> (sz < 1000 \<or> \<not> contains ''reached required accuracy'' content)"
  then show "extract_energy_from_outcar_npy (outcar d) etype = None"
    by (auto simp: extract_energy_from_outcar_npy_def)
next
  assume "outcar d = Present sz (Some content)
        \<and> 1000 \<le> sz \<and> contains ''reached required accuracy'' content"
  then show "extract_energy_from_outcar_npy (outcar d) Free =
          (if findall m_free_energy content = [] then None
           else py_float (last (findall m_free_energy content)))"
    by (simp add: extract_energy_from_outcar_npy_def)
qed

lemma last_match_two_steps:
  "last_match_value m_without_entropy (header n @ text_two_steps) = Inr (Some (-12.345))"
  by (simp add: last_match_value_def scan_header_two_steps float_or_raise_def
      float_values_of_captures)

theorem direct_extraction_agrees_under_gates_witness:
  "outcar run_0002 = Present 1115 (Some doc_two_steps)
   \<and> (1000::nat) \<le> 1115
   \<and> contains ''reached required accuracy'' doc_two_steps
   \<and> cpu_time_value doc_two_steps = Inr None
   \<and> last_match_value m_without_entropy doc_two_steps = Inr (Some (-12.345))
   \<and> findall m_sigma_0_npy doc_two_steps = findall m_sigma_0 doc_two_steps
   \<and> findall m_sigma_0 doc_two_steps \<noteq> []
   \<and> extract_energy_from_outcar_npy (outcar run_0002) Sigma0 = Some (-12.25)
   \<and> Energy_sigma_0_eV (make_row run_0002) = Some (-12.25)"
proof -
  have h1: "outcar run_0002 = Present 1115 (Some doc_two_steps)"
    by (simp add: run_0002_def length_docs)
  have h2: "(1000::nat) \<le> 1115"
    by simp
  have h3: "contains ''reached required accuracy'' doc_two_steps"
    by (simp add: doc_two_steps_def scan_header_two_steps)
  have h4: "cpu_time_value doc_two_steps = Inr None"
    by (simp add: cpu_time_value_absent doc_two_steps_def scan_header_two_steps)
  have h5: "last_match_value m_without_entropy doc_two_steps = Inr (Some (-12.345))"
    by (simp add: doc_two_steps_def last_match_two_steps)
  have h6: "findall m_sigma_0_npy doc_two_steps = findall m_sigma_0 doc_two_steps"
    by (simp add: doc_two_steps_def scan_header_two_steps)
  have h7: "findall m_sigma_0 doc_two_steps \<noteq> []"
    by (simp add: doc_two_steps_def scan_header_two_steps)
  have v: "extract_energy_from_outcar_npy (Present 1115 (Some doc_two_steps)) Sigma0 = Some (-12.25)"
    using h3 by (simp add: extract_npy_sigma_last doc_two_steps_def scan_header_two_steps
        float_values_of_captures)
  from direct_extraction_agrees_under_gates
         [of run_0002 1115 doc_two_steps None "Some (-12.345)" Sigma0]
       h1 h2 h3 h4 h5 h6 h7 v
  show ?thesis
    by simp
qed

lemma calc_index_0004: "calc_index ''calc_0004'' = Some 4"
  by (simp add: calc_index_def py_int_def strip_def is_int_space_def is_digit_def digits_val_def
      digit_val_def Let_def)

text \<open>
  The claim as stated fails: for a converged document of 500 bytes the aggregator records
  the sigma energy, and direct extraction puts the fill value at the run's position.
\<close>

theorem direct_extraction_agrees_counterexample:
  "outcar run_small = Present 500 (Some doc_small)
   \<and> Energy_sigma_0_eV (make_row run_small) = Some (-12.25)
   \<and> extract_energy_from_outcar_npy (outcar run_small) Sigma0 = None
   \<and> create_energies_array_direct [run_small] Sigma0 (Fl 0) = Inr [Fl 0, Fl 0, Fl 0, Fl 0, Fl 0]"
proof -
  have o: "outcar run_small = Present 500 (Some doc_small)"
    by (simp add: run_small_def length_docs)
  have cpu: "cpu_time_value doc_small = Inr None"
    by (simp add: cpu_time_value_absent doc_small_def scan_header_two_steps)
  have lm: "last_match_value m_without_entropy doc_small = Inr (Some (-12.345))"
    by (simp add: doc_small_def last_match_two_steps)
  have scan: "findall m_sigma_0 doc_small = [''-12.25'']"
    by (simp add: doc_small_def scan_header_two_steps)
  have a: "energy_sigma_0 (extract_energy_from_outcar (Present 500 (Some doc_small))) = Some (-12.25)"
    by (simp add: extract_sigma_0 [OF cpu lm] scan float_values_of_captures)
  have b: "extract_energy_from_outcar_npy (Present 500 (Some doc_small)) Sigma0 = None"
    by (simp add: extract_energy_from_outcar_npy_def)
  have n: "name run_small = ''calc_0004''"
    by (simp add: run_small_def)
  have r: "replicate 5 (Fl 0) = [Fl 0, Fl 0, Fl 0, Fl 0, Fl 0]"
    by (simp add: numeral_eq_Suc)
  have c: "create_energies_array_direct [run_small] Sigma0 (Fl 0) = Inr [Fl 0, Fl 0, Fl 0, Fl 0, Fl 0]"
    by (simp add: create_energies_array_direct_def calc_dir_examples calc_data_of_def n
        calc_index_0004 o b max_index_of_def np_full_def Let_def r)
  from o a b c show ?thesis
    by (simp add: make_row_fields)
qed

section \<open>main of the assembler: the energy type in CSV mode, saving and verifying\<close>

lemma replicate_3: "replicate 3 x = [x, x, x]"
  by (simp add: numeral_eq_Suc)

lemma energies_of_table_0_2:
  "energies_of_dataframe table_0_2 fill = Inr [Fl (-10.5), fill, Fl (-12.345)]"
  by (simp add: energies_of_dataframe_def table_0_2_def select_energy_col_def energy_columns_def
      table_row_def sort_values_def column_max_def float_values_def py_int_of_def
      int_of_float_def np_full_def np_setitem_def replicate_3 Let_def)

lemma paths_default:
  "path_join ''calculations'' ''energies.npy'' = ''calculations/energies.npy''"
  "npy_path ''calculations/energies.npy'' = ''calculations/energies.npy''"
  "replace ''calculations/energies.npy'' ''.npy'' ''_metadata.txt'' =
     ''calculations/energies_metadata.txt''"
  by (simp_all add: path_join_def npy_path_def endswith_def startswith_def replace_def)

lemma array_equal_refl: "array_equal a a True"
  unfolding array_equal_def
proof (intro conjI)
  show "list_all2 (\<lambda>x y. py_eq x y \<or> True \<and> isnan x \<and> isnan y) a a"
  proof (rule list_all2_all_nthI)
    fix n assume "n < length a"
    show "py_eq (a ! n) (a ! n) \<or> True \<and> isnan (a ! n) \<and> isnan (a ! n)"
      by (cases "a ! n") simp_all
  qed simp
qed simp

lemma main_npy_energy_type:
  "main_npy (a\<lparr>energy_type_arg := t\<rparr>) fs =
     (if \<not> fs_isdir fs (calculations_dir a) then (1, fs)
      else (case determine_source a fs of
              Inl status \<Rightarrow> (status, fs)
            | Inr csv \<Rightarrow>
                (case create_array (a\<lparr>energy_type_arg := t\<rparr>) fs csv of
                   Inl e \<Rightarrow> (1, fs)
                 | Inr energies \<Rightarrow> save_and_verify a fs energies)))"
proof -
  have d: "determine_source (a\<lparr>energy_type_arg := t\<rparr>) fs = determine_source a fs"
    by (simp add: determine_source_def)
  have s: "save_and_verify (a\<lparr>energy_type_arg := t\<rparr>) fs energies = save_and_verify a fs energies"
    for energies
    by (simp add: save_and_verify_def)
  show ?thesis
    by (simp add: main_npy_def d s split: sum.splits)
qed

text \<open>
  Claim C9. When \<^verbatim>\<open>main\<close> reads a persisted table, the energy-type flag has no
  effect: two invocations that differ only in the flag assemble the same array and end
  with the same exit status and files. The array is the one built from the table with
  the fill value alone, and the energy column is the first of the three fixed names that
  the table has.
\<close>

theorem energy_type_without_effect_in_csv_mode:
  assumes "determine_source a fs = Inr csv" and "csv_to_use fs csv = Some f"
  shows "create_array (a\<lparr>energy_type_arg := t\<rparr>) fs csv = create_array a fs csv
       \<and> create_array a fs csv = create_energies_array_from_csv (read_csv fs f) (fill_value a)
       \<and> main_npy (a\<lparr>energy_type_arg := t\<rparr>) fs = main_npy a fs
       \<and> select_energy_col df =
           find (\<lambda>col. col \<in> set (columns df))
             [''Energy_eV'', ''Energy_without_entropy_eV'', ''Energy_sigma_0_eV'']"
proof -
  have c: "create_array (a\<lparr>energy_type_arg := t\<rparr>) fs csv = create_array a fs csv"
    using assms(2) by (simp add: create_array_def)
  have m: "main_npy (a\<lparr>energy_type_arg := t\<rparr>) fs = main_npy a fs"
    using assms(1) c by (simp add: main_npy_energy_type) (simp add: main_npy_def)
  show ?thesis
    using c m assms(2) by (simp add: create_array_def select_energy_col_def energy_columns_def)
qed

lemma source_with_table:
  "determine_source default_args fs_with_table = Inr (Some ''calculations/energies_1.csv'')"
  "csv_to_use fs_with_table (Some ''calculations/energies_1.csv'') = Some ''calculations/energies_1.csv''"
  "read_csv fs_with_table ''calculations/energies_1.csv'' = Inr table_0_2"
  "fs_isdir fs_with_table (calculations_dir default_args)"
  by (simp_all add: determine_source_def default_args_def fs_with_table_def csv_to_use_def
      path_exists_def read_csv_def)

theorem energy_type_without_effect_in_csv_mode_witness:
  "determine_source default_args fs_with_table = Inr (Some ''calculations/energies_1.csv'')
   \<and> csv_to_use fs_with_table (Some ''calculations/energies_1.csv'') = Some ''calculations/energies_1.csv''
   \<and> energy_type_arg default_args = Sigma0
   \<and> create_array (default_args\<lparr>energy_type_arg := Free\<rparr>) fs_with_table
        (Some ''calculations/energies_1.csv'') = Inr [Fl (-10.5), NaN, Fl (-12.345)]
   \<and> create_array default_args fs_with_table
        (Some ''calculations/energies_1.csv'') = Inr [Fl (-10.5), NaN, Fl (-12.345)]
   \<and> main_npy (default_args\<lparr>energy_type_arg := Free\<rparr>) fs_with_table =
       main_npy default_args fs_with_table"
proof -
  have v: "create_energies_array_from_csv (read_csv fs_with_table ''calculations/energies_1.csv'')
             (fill_value default_args) = Inr [Fl (-10.5), NaN, Fl (-12.345)]"
    by (simp add: source_with_table create_energies_array_from_csv_def energies_of_table_0_2
        default_args_def)
  have e: "energy_type_arg default_args = Sigma0"
    by (simp add: default_args_def)
  from energy_type_without_effect_in_csv_mode [OF source_with_table(1,2), of Free] v e
    source_with_table(1,2)
  show ?thesis
    by simp
qed


lemma array_equal_True_iff: "array_equal a b True = (a = b)"
proof -
  have "(\<lambda>x y. py_eq x y \<or> True \<and> isnan x \<and> isnan y) = (=)"
  proof (intro ext)
    fix x y show "(py_eq x y \<or> True \<and> isnan x \<and> isnan y) = (x = y)"
      by (cases x; cases y) simp_all
  qed
  then have "list_all2 (\<lambda>x y. py_eq x y \<or> True \<and> isnan x \<and> isnan y) a b = (a = b)"
    by (simp add: list_all2_eq)
  then show ?thesis
    by (auto simp: array_equal_def)
qed

lemma verify_saved_eq:
  "verify_saved fs p energies = (if np_load fs p = Inr energies then 0 else 1)"
  by (auto simp: verify_saved_def array_equal_True_iff split: sum.splits)

lemma np_load_after_np_save:
  "np_save fs p arr = Inr fs1 \<Longrightarrow> np_load fs1 (npy_path p) = Inr arr"
  by (auto simp: np_save_def np_load_def split: if_splits)

lemma main_npy_reaches_verification:
  assumes "fs_isdir fs (calculations_dir a)"
    and "determine_source a fs = Inr csv"
    and "create_array a fs csv = Inr energies"
    and "np_save fs (path_join (calculations_dir a) (output_name a)) energies = Inr fs1"
    and "write_metadata fs1
           (replace (path_join (calculations_dir a) (output_name a)) ''.npy'' ''_metadata.txt'') =
         Inr fs2"
  shows "main_npy a fs =
           (verify_saved fs2 (path_join (calculations_dir a) (output_name a)) energies, fs2)"
  using assms by (simp add: main_npy_def save_and_verify_def Let_def)

text \<open>
  What holds of the verification for every invocation: \<^verbatim>\<open>main\<close> ends with status 0
  only if loading the output path returned the very array that was assembled.
\<close>

lemma main_npy_exit_zero:
  assumes "fst (main_npy a fs) = 0"
  shows "\<exists>csv energies.
           determine_source a fs = Inr csv \<and> create_array a fs csv = Inr energies
           \<and> np_load (snd (main_npy a fs)) (path_join (calculations_dir a) (output_name a)) =
               Inr energies"
proof -
  from assms have dir: "fs_isdir fs (calculations_dir a)"
    by (auto simp: main_npy_def split: if_splits)
  from assms dir obtain csv where src: "determine_source a fs = Inr csv"
    by (cases "determine_source a fs")
       (auto simp: main_npy_def determine_source_def split: option.splits if_splits)
  from assms dir src obtain energies where arr: "create_array a fs csv = Inr energies"
    by (cases "create_array a fs csv") (auto simp: main_npy_def)
  let ?out = "path_join (calculations_dir a) (output_name a)"
  from assms dir src arr have sv: "fst (save_and_verify a fs energies) = 0"
    by (simp add: main_npy_def)
  then obtain fs1 where s1: "np_save fs ?out energies = Inr fs1"
    by (cases "np_save fs ?out energies") (auto simp: save_and_verify_def Let_def)
  with sv obtain fs2 where s2: "write_metadata fs1 (replace ?out ''.npy'' ''_metadata.txt'') = Inr fs2"
    by (cases "write_metadata fs1 (replace ?out ''.npy'' ''_metadata.txt'')")
       (auto simp: save_and_verify_def Let_def)
  have m: "main_npy a fs = (verify_saved fs2 ?out energies, fs2)"
    by (rule main_npy_reaches_verification [OF dir src arr s1 s2])
  with assms have "verify_saved fs2 ?out energies = 0"
    by simp
  then have "np_load fs2 ?out = Inr energies"
    by (simp add: verify_saved_eq split: if_splits)
  with src arr m show ?thesis
    by auto
qed

lemma create_array_with_table:
  "create_array default_args fs_with_table (Some ''calculations/energies_1.csv'') =
     Inr [Fl (-10.5), NaN, Fl (-12.345)]"
  by (simp add: create_array_def source_with_table create_energies_array_from_csv_def
      energies_of_table_0_2 default_args_def)

text \<open>With the default output name the array is read back from the file it was saved to.\<close>

lemma main_npy_default_name:
  "fst (main_npy default_args fs_with_table) = 0"
  "np_load (snd (main_npy default_args fs_with_table)) ''calculations/energies.npy'' =
     Inr [Fl (-10.5), NaN, Fl (-12.345)]"
proof -
  let ?E = "[Fl (-10.5), NaN, Fl (-12.345)]"
  let ?out = "path_join (calculations_dir default_args) (output_name default_args)"
  let ?fs1 = "fs_with_table\<lparr>fs_files := (fs_files fs_with_table)
          (''calculations/energies.npy'' \<mapsto> Npy_file ?E)\<rparr>"
  let ?fs2 = "fs_with_table\<lparr>fs_files := (fs_files fs_with_table)
          (''calculations/energies.npy'' \<mapsto> Npy_file ?E,
           ''calculations/energies_metadata.txt'' \<mapsto>
             Other_file (Inr \<lparr>columns = [''NPY File Metadata''], rows = []\<rparr>))\<rparr>"
  have sv: "np_save fs_with_table ?out ?E = Inr ?fs1"
    by (simp add: default_args_def paths_default np_save_def) (simp add: fs_with_table_def)
  have md: "write_metadata ?fs1 (replace ?out ''.npy'' ''_metadata.txt'') = Inr ?fs2"
    by (simp add: default_args_def paths_default write_metadata_def) (simp add: fs_with_table_def)
  have ld: "np_load ?fs2 ''calculations/energies.npy'' = Inr ?E"
    by (simp add: np_load_def)
  have out: "?out = ''calculations/energies.npy''"
    by (simp add: default_args_def paths_default)
  have m: "main_npy default_args fs_with_table = (verify_saved ?fs2 ?out ?E, ?fs2)"
    by (rule main_npy_reaches_verification
          [OF source_with_table(4) source_with_table(1) create_array_with_table sv md])
  show "fst (main_npy default_args fs_with_table) = 0"
    using ld by (simp add: m verify_saved_eq out)
  show "np_load (snd (main_npy default_args fs_with_table)) ''calculations/energies.npy'' = Inr ?E"
    using ld by (simp add: m)
qed

text \<open>
  Claim C3. The claim asks that the saved array, read back, equals the array in memory
  element by element, and that \<^verbatim>\<open>main\<close> ends with a non-zero status when the
  verification fails. \<^verbatim>\<open>main\<close> misses the first part for an output name without
  \<^verbatim>\<open>.npy\<close>: \<^verbatim>\<open>np.save\<close> appends the suffix, the metadata path is then the
  output path itself, and the verification loads the output path as given. With the
  output name \<^verbatim>\<open>energies\<close> the file \<^verbatim>\<open>calculations/energies.npy\<close> holds exactly
  the assembled array, the verification loads the metadata text instead, and \<^verbatim>\<open>main\<close>
  ends with status 1.
\<close>

theorem verification_reads_another_file:
  "create_array args_without_suffix fs_with_table (Some ''calculations/energies_1.csv'') =
     Inr [Fl (-10.5), NaN, Fl (-12.345)]
   \<and> path_join (calculations_dir args_without_suffix) (output_name args_without_suffix) =
       ''calculations/energies''
   \<and> np_load (snd (main_npy args_without_suffix fs_with_table)) ''calculations/energies.npy'' =
       Inr [Fl (-10.5), NaN, Fl (-12.345)]
   \<and> np_load (snd (main_npy args_without_suffix fs_with_table)) ''calculations/energies'' =
       Inl (ValueError ''not a saved array'')
   \<and> fst (main_npy args_without_suffix fs_with_table) = 1"
proof -
  let ?E = "[Fl (-10.5), NaN, Fl (-12.345)]"
  let ?out = "path_join (calculations_dir args_without_suffix) (output_name args_without_suffix)"
  let ?fs1 = "fs_with_table\<lparr>fs_files := (fs_files fs_with_table)
          (''calculations/energies.npy'' \<mapsto> Npy_file ?E)\<rparr>"
  let ?fs2 = "fs_with_table\<lparr>fs_files := (fs_files fs_with_table)
          (''calculations/energies.npy'' \<mapsto> Npy_file ?E,
           ''calculations/energies'' \<mapsto>
             Other_file (Inr \<lparr>columns = [''NPY File Metadata''], rows = []\<rparr>))\<rparr>"
  have p: "path_join ''calculations'' ''energies'' = ''calculations/energies''"
    "npy_path ''calculations/energies'' = ''calculations/energies.npy''"
    "replace ''calculations/energies'' ''.npy'' ''_metadata.txt'' = ''calculations/energies''"
    by (simp_all add: path_join_def npy_path_def endswith_def startswith_def replace_def)
  have out: "?out = ''calculations/energies''"
    by (simp add: args_without_suffix_def default_args_def p)
  have dir: "fs_isdir fs_with_table (calculations_dir args_without_suffix)"
    by (simp add: args_without_suffix_def default_args_def fs_with_table_def)
  have src: "determine_source args_without_suffix fs_with_table =
               Inr (Some ''calculations/energies_1.csv'')"
    by (simp add: determine_source_def args_without_suffix_def default_args_def fs_with_table_def)
  have arr: "create_array args_without_suffix fs_with_table (Some ''calculations/energies_1.csv'') =
               Inr ?E"
    by (simp add: create_array_def source_with_table create_energies_array_from_csv_def
        energies_of_table_0_2 args_without_suffix_def default_args_def)
  have sv: "np_save fs_with_table ?out ?E = Inr ?fs1"
    by (simp add: out p np_save_def) (simp add: fs_with_table_def)
  have md: "write_metadata ?fs1 (replace ?out ''.npy'' ''_metadata.txt'') = Inr ?fs2"
    by (simp add: out p write_metadata_def) (simp add: fs_with_table_def)
  have m: "main_npy args_without_suffix fs_with_table = (verify_saved ?fs2 ?out ?E, ?fs2)"
    by (rule main_npy_reaches_verification [OF dir src arr sv md])
  have l1: "np_load ?fs2 ''calculations/energies.npy'' = Inr ?E"
    by (simp add: np_load_def)
  have l2: "np_load ?fs2 ''calculations/energies'' = Inl (ValueError ''not a saved array'')"
    by (simp add: np_load_def)
  have st: "verify_saved ?fs2 ?out ?E = 1"
    by (simp add: verify_saved_eq out np_load_def)
  from arr out l1 l2 st show ?thesis
    by (simp add: m)
qed

section \<open>The dense array\<close>

lemma int_of_float_of_nat: "int_of_float (real n) = int n"
  by (simp add: int_of_float_def)

lemma np_setitem_nat:
  "n < length a \<Longrightarrow> np_setitem a (int n) v = Inr (a[n := v])"
  by (simp add: np_setitem_def Let_def)

lemma fill_from_rows_dense:
  assumes "\<forall>r \<in> set rs. \<not> isnan (r ''Index'') \<longrightarrow> (\<exists>n < length a. r ''Index'' = Fl (real n))"
    and "\<forall>r \<in> set rs. \<forall>r' \<in> set rs.
           \<not> isnan (r ''Index'') \<longrightarrow> r ''Index'' = r' ''Index'' \<longrightarrow> r col = r' col"
  shows "\<exists>a'. fill_from_rows col rs a = Inr a' \<and> length a' = length a
           \<and> (\<forall>r \<in> set rs. \<forall>n. r ''Index'' = Fl (real n) \<longrightarrow> \<not> isnan (r col) \<longrightarrow> a' ! n = r col)
           \<and> (\<forall>i < length a. (\<forall>r \<in> set rs. r ''Index'' = Fl (real i) \<longrightarrow> isnan (r col)) \<longrightarrow>
                 a' ! i = a ! i)"
  using assms
proof (induction rs arbitrary: a)
  case Nil
  then show ?case by simp
next
  case (Cons r rs)
  show ?case
  proof (cases "\<not> isnan (r ''Index'') \<and> \<not> isnan (r col)")
    case False
    have q1: "\<forall>r \<in> set rs. \<not> isnan (r ''Index'') \<longrightarrow> (\<exists>n < length a. r ''Index'' = Fl (real n))"
      using Cons.prems(1) by simp
    have q2: "\<forall>r \<in> set rs. \<forall>r' \<in> set rs.
           \<not> isnan (r ''Index'') \<longrightarrow> r ''Index'' = r' ''Index'' \<longrightarrow> r col = r' col"
      using Cons.prems(2) by auto
    from Cons.IH [OF q1 q2] obtain a' where a':
      "fill_from_rows col rs a = Inr a'" "length a' = length a"
      "\<forall>r \<in> set rs. \<forall>n. r ''Index'' = Fl (real n) \<longrightarrow> \<not> isnan (r col) \<longrightarrow> a' ! n = r col"
      "\<forall>i < length a. (\<forall>r \<in> set rs. r ''Index'' = Fl (real i) \<longrightarrow> isnan (r col)) \<longrightarrow> a' ! i = a ! i"
      by blast
    have "fill_from_rows col (r # rs) a = Inr a'"
      using False a'(1) by auto
    moreover have "\<forall>r0 \<in> set (r # rs). \<forall>n. r0 ''Index'' = Fl (real n) \<longrightarrow> \<not> isnan (r0 col) \<longrightarrow>
          a' ! n = r0 col"
      using False a'(3) by auto
    moreover have "\<forall>i < length a. (\<forall>r0 \<in> set (r # rs). r0 ''Index'' = Fl (real i) \<longrightarrow> isnan (r0 col)) \<longrightarrow>
          a' ! i = a ! i"
      using a'(4) by auto
    ultimately show ?thesis
      using a'(2) by blast
  next
    case True
    with Cons.prems(1) obtain n where n: "n < length a" "r ''Index'' = Fl (real n)"
      by auto
    let ?a1 = "a[n := r col]"
    have p1: "\<forall>r \<in> set rs. \<not> isnan (r ''Index'') \<longrightarrow> (\<exists>n < length ?a1. r ''Index'' = Fl (real n))"
      using Cons.prems(1) by simp
    have p2: "\<forall>r \<in> set rs. \<forall>r' \<in> set rs.
           \<not> isnan (r ''Index'') \<longrightarrow> r ''Index'' = r' ''Index'' \<longrightarrow> r col = r' col"
      using Cons.prems(2) by auto
    from Cons.IH [OF p1 p2] obtain a' where a':
      "fill_from_rows col rs ?a1 = Inr a'" "length a' = length a"
      "\<forall>r \<in> set rs. \<forall>n. r ''Index'' = Fl (real n) \<longrightarrow> \<not> isnan (r col) \<longrightarrow> a' ! n = r col"
      "\<forall>i < length a. (\<forall>r \<in> set rs. r ''Index'' = Fl (real i) \<longrightarrow> isnan (r col)) \<longrightarrow> a' ! i = ?a1 ! i"
      by auto
    have run: "fill_from_rows col (r # rs) a = Inr a'"
      using True n a'(1) by (simp add: py_int_of_def int_of_float_of_nat np_setitem_nat)
    have same: "r' col = r col" if "r' \<in> set rs" "r' ''Index'' = Fl (real n)" for r'
      using Cons.prems(2) that n True by (metis list.set_intros(1,2))
    have head: "a' ! n = r col"
    proof (cases "\<exists>r' \<in> set rs. r' ''Index'' = Fl (real n) \<and> \<not> isnan (r' col)")
      case True
      then obtain r' where "r' \<in> set rs" "r' ''Index'' = Fl (real n)" "\<not> isnan (r' col)"
        by blast
      then show ?thesis
        using a'(3) same by metis
    next
      case False
      then have "a' ! n = ?a1 ! n"
        using a'(4) n(1) by blast
      then show ?thesis
        using n(1) by simp
    qed
    have c1: "\<forall>r0 \<in> set (r # rs). \<forall>m. r0 ''Index'' = Fl (real m) \<longrightarrow> \<not> isnan (r0 col) \<longrightarrow>
          a' ! m = r0 col"
      using head a'(3) n(2) by auto
    have c2: "\<forall>i < length a. (\<forall>r0 \<in> set (r # rs). r0 ''Index'' = Fl (real i) \<longrightarrow> isnan (r0 col)) \<longrightarrow>
          a' ! i = a ! i"
    proof (intro allI impI)
      fix i assume i: "i < length a"
        and all: "\<forall>r0 \<in> set (r # rs). r0 ''Index'' = Fl (real i) \<longrightarrow> isnan (r0 col)"
      from all True n(2) have "i \<noteq> n"
        by auto
      moreover from all have "\<forall>r0 \<in> set rs. r0 ''Index'' = Fl (real i) \<longrightarrow> isnan (r0 col)"
        by simp
      ultimately show "a' ! i = a ! i"
        using a'(4) i by simp
    qed
    show ?thesis
      using run a'(2) c1 c2 by blast
  qed
qed

lemma set_float_values:
  "set (float_values col rs) = {x. \<exists>r \<in> set rs. r col = Fl x}"
  by (induction rs) (auto simp: float_values_def split: pyfloat.splits)

lemma fold_max_is_greatest:
  fixes x :: "'a :: linorder"
  assumes "m \<in> set (x # xs)" and "\<forall>y \<in> set (x # xs). y \<le> m"
  shows "fold max xs x = m"
proof -
  have "fold max xs x = Max (set (x # xs))"
    by (rule Max.set_eq_fold [symmetric])
  also have "\<dots> = m"
    using assms by (intro Max_eqI) auto
  finally show ?thesis .
qed

lemma column_max_is_greatest:
  assumes "\<forall>r \<in> set rs. \<not> isnan (r col) \<longrightarrow> (\<exists>n \<le> M. r col = Fl (real n))"
    and "\<exists>r \<in> set rs. r col = Fl (real M)"
  shows "column_max col rs = Fl (real M)"
proof (cases "float_values col rs")
  case Nil
  with assms(2) show ?thesis
    using set_float_values [of col rs] by auto
next
  case (Cons x xs)
  have "real M \<in> set (x # xs)"
    using assms(2) Cons set_float_values [of col rs] by auto
  moreover have "\<forall>y \<in> set (x # xs). y \<le> real M"
  proof
    fix y assume "y \<in> set (x # xs)"
    then obtain r where r: "r \<in> set rs" "r col = Fl y"
      using Cons set_float_values [of col rs] by auto
    with assms(1) obtain n where "n \<le> M" "r col = Fl (real n)"
      by fastforce
    with r show "y \<le> real M"
      by simp
  qed
  ultimately have "fold max xs x = real M"
    by (rule fold_max_is_greatest)
  with Cons show ?thesis
    by (simp add: column_max_def)
qed

lemma set_sort_values: "set (sort_values col rs) = set rs"
  by (auto simp: sort_values_def)

lemma energies_of_dataframe_dense:
  assumes col: "select_energy_col df = Some col"
    and idx: "''Index'' \<in> set (columns df)"
    and ids: "\<forall>r \<in> set (rows df). \<not> isnan (r ''Index'') \<longrightarrow> (\<exists>n \<le> M. r ''Index'' = Fl (real n))"
    and top: "\<exists>r \<in> set (rows df). r ''Index'' = Fl (real M)"
    and uniq: "\<forall>r \<in> set (rows df). \<forall>r' \<in> set (rows df).
                 \<not> isnan (r ''Index'') \<longrightarrow> r ''Index'' = r' ''Index'' \<longrightarrow> r = r'"
  shows "\<exists>a. energies_of_dataframe df fill = Inr a \<and> length a = M + 1
           \<and> (\<forall>r \<in> set (rows df). \<forall>n. r ''Index'' = Fl (real n) \<longrightarrow> \<not> isnan (r col) \<longrightarrow>
                 a ! n = r col)
           \<and> (\<forall>i \<le> M. (\<forall>r \<in> set (rows df). r ''Index'' = Fl (real i) \<longrightarrow> isnan (r col)) \<longrightarrow>
                 a ! i = fill)"
proof -
  let ?rs = "sort_values ''Index'' (rows df)"
  let ?a0 = "replicate (M + 1) fill"
  have any: "\<exists>r \<in> set (rows df). \<not> isnan (r ''Index'')"
    using top by force
  have mx: "column_max ''Index'' ?rs = Fl (real M)"
    using ids top by (intro column_max_is_greatest) (simp_all add: set_sort_values)
  have full: "np_full (int_of_float (real M) + 1) fill = Inr ?a0"
    by (simp add: np_full_def int_of_float_of_nat nat_add_distrib)
  have b: "\<forall>r \<in> set ?rs. \<not> isnan (r ''Index'') \<longrightarrow> (\<exists>n < length ?a0. r ''Index'' = Fl (real n))"
    using ids by (fastforce simp: set_sort_values less_Suc_eq_le)
  have u: "\<forall>r \<in> set ?rs. \<forall>r' \<in> set ?rs.
             \<not> isnan (r ''Index'') \<longrightarrow> r ''Index'' = r' ''Index'' \<longrightarrow> r col = r' col"
    using uniq by (auto simp: set_sort_values)
  from fill_from_rows_dense [OF b u] obtain a where a:
    "fill_from_rows col ?rs ?a0 = Inr a" "length a = length ?a0"
    "\<forall>r \<in> set ?rs. \<forall>n. r ''Index'' = Fl (real n) \<longrightarrow> \<not> isnan (r col) \<longrightarrow> a ! n = r col"
    "\<forall>i < length ?a0. (\<forall>r \<in> set ?rs. r ''Index'' = Fl (real i) \<longrightarrow> isnan (r col)) \<longrightarrow> a ! i = ?a0 ! i"
    by blast
  have run: "energies_of_dataframe df fill = Inr a"
    using col idx any mx full a(1)
    by (simp add: energies_of_dataframe_def Let_def py_int_of_def)
  have nth0: "?a0 ! i = fill" if "i \<le> M" for i
    using that nth_replicate [of i "M + 1" fill] by simp
  have c2: "\<forall>i \<le> M. (\<forall>r \<in> set (rows df). r ''Index'' = Fl (real i) \<longrightarrow> isnan (r col)) \<longrightarrow> a ! i = fill"
  proof (intro allI impI)
    fix i assume "i \<le> M"
      and "\<forall>r \<in> set (rows df). r ''Index'' = Fl (real i) \<longrightarrow> isnan (r col)"
    then have "a ! i = ?a0 ! i"
      using a(4) by (simp add: set_sort_values less_Suc_eq_le)
    with \<open>i \<le> M\<close> show "a ! i = fill"
      by (simp only: nth0)
  qed
  show ?thesis
    using run a(2) a(3) c2 by (simp add: set_sort_values)
qed


lemma fill_from_data_dense:
  assumes "\<forall>p \<in> set cd. 0 \<le> fst p \<and> fst p < int (length a)"
    and "\<forall>p \<in> set cd. \<forall>p' \<in> set cd. fst p = fst p' \<longrightarrow> snd p = snd p'"
  shows "\<exists>a'. fill_from_data cd a = Inr a' \<and> length a' = length a
           \<and> (\<forall>p \<in> set cd. \<forall>v. snd p = Some v \<longrightarrow> a' ! nat (fst p) = Fl v)
           \<and> (\<forall>j < length a. (\<forall>p \<in> set cd. fst p = int j \<longrightarrow> snd p = None) \<longrightarrow> a' ! j = a ! j)"
  using assms
proof (induction cd arbitrary: a)
  case Nil
  then show ?case by simp
next
  case (Cons p cd)
  obtain i e where p: "p = (i, e)"
    by (cases p)
  have range: "0 \<le> i" "i < int (length a)"
    using Cons.prems(1) p by auto
  have q2: "\<forall>p \<in> set cd. \<forall>p' \<in> set cd. fst p = fst p' \<longrightarrow> snd p = snd p'"
  proof (intro ballI impI)
    fix q q' assume "q \<in> set cd" "q' \<in> set cd" "fst q = fst q'"
    then show "snd q = snd q'"
      using Cons.prems(2) [rule_format, of q q'] by simp
  qed
  show ?case
  proof (cases e)
    case None
    have q1: "\<forall>p \<in> set cd. 0 \<le> fst p \<and> fst p < int (length a)"
      using Cons.prems(1) by simp
    from Cons.IH [OF q1 q2] obtain a' where a':
      "fill_from_data cd a = Inr a'" "length a' = length a"
      "\<forall>p \<in> set cd. \<forall>v. snd p = Some v \<longrightarrow> a' ! nat (fst p) = Fl v"
      "\<forall>j < length a. (\<forall>p \<in> set cd. fst p = int j \<longrightarrow> snd p = None) \<longrightarrow> a' ! j = a ! j"
      by blast
    have "fill_from_data (p # cd) a = Inr a'"
      using None p a'(1) by simp
    moreover have "\<forall>q \<in> set (p # cd). \<forall>v. snd q = Some v \<longrightarrow> a' ! nat (fst q) = Fl v"
      using None p a'(3) by auto
    moreover have "\<forall>j < length a. (\<forall>q \<in> set (p # cd). fst q = int j \<longrightarrow> snd q = None) \<longrightarrow>
          a' ! j = a ! j"
      using a'(4) by auto
    ultimately show ?thesis
      using a'(2) by blast
  next
    case (Some v)
    let ?a1 = "a[nat i := Fl v]"
    have q1: "\<forall>p \<in> set cd. 0 \<le> fst p \<and> fst p < int (length ?a1)"
      using Cons.prems(1) by simp
    from Cons.IH [OF q1 q2] obtain a' where a':
      "fill_from_data cd ?a1 = Inr a'" "length a' = length a"
      "\<forall>p \<in> set cd. \<forall>v. snd p = Some v \<longrightarrow> a' ! nat (fst p) = Fl v"
      "\<forall>j < length a. (\<forall>p \<in> set cd. fst p = int j \<longrightarrow> snd p = None) \<longrightarrow> a' ! j = ?a1 ! j"
      by auto
    have set: "np_setitem a i (Fl v) = Inr ?a1"
      using range by (simp add: np_setitem_def Let_def)
    have run: "fill_from_data (p # cd) a = Inr a'"
      using Some p a'(1) set by simp
    have same: "snd q = Some v" if "q \<in> set cd" "fst q = i" for q
      using Cons.prems(2) [rule_format, of p q] that p Some by simp
    have head: "a' ! nat i = Fl v"
    proof (cases "\<exists>q \<in> set cd. fst q = i")
      case True
      then show ?thesis
        using a'(3) same by blast
    next
      case False
      then have "\<forall>q \<in> set cd. fst q = int (nat i) \<longrightarrow> snd q = None"
        using range(1) by simp
      moreover have "nat i < length a"
        using range by simp
      ultimately have "a' ! nat i = ?a1 ! nat i"
        using a'(4) by blast
      then show ?thesis
        using \<open>nat i < length a\<close> by simp
    qed
    have c1: "\<forall>q \<in> set (p # cd). \<forall>w. snd q = Some w \<longrightarrow> a' ! nat (fst q) = Fl w"
      using head a'(3) p Some by auto
    have c2: "\<forall>j < length a. (\<forall>q \<in> set (p # cd). fst q = int j \<longrightarrow> snd q = None) \<longrightarrow>
          a' ! j = a ! j"
    proof (intro allI impI)
      fix j assume j: "j < length a"
        and all: "\<forall>q \<in> set (p # cd). fst q = int j \<longrightarrow> snd q = None"
      from all p Some have "i \<noteq> int j"
        by auto
      then have "nat i \<noteq> j"
        using range(1) by auto
      moreover from all have "\<forall>q \<in> set cd. fst q = int j \<longrightarrow> snd q = None"
        by simp
      ultimately show "a' ! j = a ! j"
        using a'(4) j by simp
    qed
    show ?thesis
      using run a'(2) c1 c2 by blast
  qed
qed

lemma set_calc_data_of:
  "set (calc_data_of ds etype) =
     {(i, extract_energy_from_outcar_npy (outcar d) etype) | i d.
        d \<in> set ds \<and> calc_index (name d) = Some i}"
  by (induction ds) (auto simp: calc_data_of_def split: option.splits)

lemma max_index_of_is_greatest:
  assumes "\<exists>p \<in> set cd. fst p = m" and "\<forall>p \<in> set cd. fst p \<le> m"
  shows "max_index_of cd = m"
proof (cases "map fst cd")
  case Nil
  with assms(1) show ?thesis by simp
next
  case (Cons i js)
  have "set (i # js) = fst ` set cd"
    using Cons [symmetric] by simp
  then have "m \<in> set (i # js)" and "\<forall>y \<in> set (i # js). y \<le> m"
    using assms by (metis image_eqI, metis imageE)
  then have "fold max js i = m"
    by (rule fold_max_is_greatest)
  with Cons show ?thesis
    by (simp add: max_index_of_def)
qed

lemma create_energies_array_direct_dense:
  assumes ids: "\<forall>d \<in> set listing. is_calc_dir d \<longrightarrow>
                  (\<forall>i. calc_index (name d) = Some i \<longrightarrow> 0 \<le> i \<and> i \<le> int M)"
    and top: "\<exists>d \<in> set listing. is_calc_dir d \<and> calc_index (name d) = Some (int M)"
    and uniq: "\<forall>d \<in> set listing. \<forall>d' \<in> set listing.
                 is_calc_dir d \<longrightarrow> is_calc_dir d' \<longrightarrow> calc_index (name d) \<noteq> None \<longrightarrow>
                 calc_index (name d) = calc_index (name d') \<longrightarrow> d = d'"
  shows "\<exists>a. create_energies_array_direct listing etype fill = Inr a \<and> length a = M + 1
           \<and> (\<forall>d \<in> set listing. is_calc_dir d \<longrightarrow>
                 (\<forall>n v. calc_index (name d) = Some (int n) \<longrightarrow>
                    extract_energy_from_outcar_npy (outcar d) etype = Some v \<longrightarrow> a ! n = Fl v))
           \<and> (\<forall>i \<le> M. (\<forall>d \<in> set listing. is_calc_dir d \<longrightarrow> calc_index (name d) = Some (int i) \<longrightarrow>
                            extract_energy_from_outcar_npy (outcar d) etype = None) \<longrightarrow>
                 a ! i = fill)"
proof -
  let ?dirs = "filter is_calc_dir listing"
  let ?cd = "sort_key fst (calc_data_of ?dirs etype)"
  let ?a0 = "replicate (M + 1) fill"
  have cd: "set ?cd = {(i, extract_energy_from_outcar_npy (outcar d) etype) | i d.
                        d \<in> set listing \<and> is_calc_dir d \<and> calc_index (name d) = Some i}"
    by (auto simp: set_calc_data_of)
  from top obtain dM where dM: "dM \<in> set listing" "is_calc_dir dM" "calc_index (name dM) = Some (int M)"
    by blast
  then have inM: "(int M, extract_energy_from_outcar_npy (outcar dM) etype) \<in> set ?cd"
    unfolding cd by blast
  then have ne: "?cd \<noteq> []"
    by (metis empty_iff empty_set)
  have dirs: "?dirs \<noteq> []"
    using dM by (auto simp: filter_empty_conv)
  have mx: "max_index_of ?cd = int M"
  proof (rule max_index_of_is_greatest)
    show "\<exists>p \<in> set ?cd. fst p = int M"
      using inM by force
    show "\<forall>p \<in> set ?cd. fst p \<le> int M"
      unfolding cd using ids by auto
  qed
  have full: "np_full (max_index_of ?cd + 1) fill = Inr ?a0"
    by (simp add: mx np_full_def nat_add_distrib)
  have b: "\<forall>p \<in> set ?cd. 0 \<le> fst p \<and> fst p < int (length ?a0)"
    unfolding cd using ids by auto
  have u: "\<forall>p \<in> set ?cd. \<forall>p' \<in> set ?cd. fst p = fst p' \<longrightarrow> snd p = snd p'"
  proof (intro ballI impI)
    fix p p' assume "p \<in> set ?cd" "p' \<in> set ?cd" "fst p = fst p'"
    then obtain i d d' where
      "p = (i, extract_energy_from_outcar_npy (outcar d) etype)"
      "p' = (i, extract_energy_from_outcar_npy (outcar d') etype)"
      "d \<in> set listing" "is_calc_dir d" "calc_index (name d) = Some i"
      "d' \<in> set listing" "is_calc_dir d'" "calc_index (name d') = Some i"
      unfolding cd by auto
    moreover from this have "d = d'"
      using uniq [rule_format, of d d'] by simp
    ultimately show "snd p = snd p'"
      by simp
  qed
  from fill_from_data_dense [OF b u] obtain a where a:
    "fill_from_data ?cd ?a0 = Inr a" "length a = length ?a0"
    "\<forall>p \<in> set ?cd. \<forall>v. snd p = Some v \<longrightarrow> a ! nat (fst p) = Fl v"
    "\<forall>j < length ?a0. (\<forall>p \<in> set ?cd. fst p = int j \<longrightarrow> snd p = None) \<longrightarrow> a ! j = ?a0 ! j"
    by blast
  have run: "create_energies_array_direct listing etype fill = Inr a"
    using dirs ne full a(1) by (simp add: create_energies_array_direct_def Let_def)
  have c1: "\<forall>d \<in> set listing. is_calc_dir d \<longrightarrow>
              (\<forall>n v. calc_index (name d) = Some (int n) \<longrightarrow>
                 extract_energy_from_outcar_npy (outcar d) etype = Some v \<longrightarrow> a ! n = Fl v)"
  proof (intro ballI impI allI)
    fix d n v
    assume "d \<in> set listing" "is_calc_dir d" "calc_index (name d) = Some (int n)"
      and v: "extract_energy_from_outcar_npy (outcar d) etype = Some v"
    then have "(int n, extract_energy_from_outcar_npy (outcar d) etype) \<in> set ?cd"
      unfolding cd by blast
    with a(3) v have "a ! nat (int n) = Fl v"
      by force
    then show "a ! n = Fl v"
      by simp
  qed
  have nth0: "?a0 ! i = fill" if "i \<le> M" for i
    using that nth_replicate [of i "M + 1" fill] by simp
  have c2: "\<forall>i \<le> M. (\<forall>d \<in> set listing. is_calc_dir d \<longrightarrow> calc_index (name d) = Some (int i) \<longrightarrow>
                            extract_energy_from_outcar_npy (outcar d) etype = None) \<longrightarrow>
                 a ! i = fill"
  proof (intro allI impI)
    fix i assume i: "i \<le> M"
      and all: "\<forall>d \<in> set listing. is_calc_dir d \<longrightarrow> calc_index (name d) = Some (int i) \<longrightarrow>
                  extract_energy_from_outcar_npy (outcar d) etype = None"
    have "\<forall>p \<in> set ?cd. fst p = int i \<longrightarrow> snd p = None"
      unfolding cd using all by auto
    moreover have "i < length ?a0"
      using i by simp
    ultimately have "a ! i = ?a0 ! i"
      using a(4) by blast
    with i show "a ! i = fill"
      by (simp only: nth0)
  qed
  show ?thesis
    using run a(2) c1 c2 by simp
qed


lemma create_energies_array_from_csv_Inr:
  "energies_of_dataframe df fill = Inr a \<Longrightarrow> create_energies_array_from_csv (Inr df) fill = Inr a"
  by (simp add: create_energies_array_from_csv_def)

text \<open>
  Claim C1. The identifiers are those of the data model: non-negative integers, each
  carried by one row (or one run directory), \<open>M\<close> being the greatest of them. For
  every table with an energy column and an identifier column with such identifiers, at
  least one of them present, the assembled array has length \<open>M + 1\<close>; the value at a
  position is the energy of the row with that identifier when the row has one; and every
  position whose identifier no row carries, or whose row has no energy, holds the fill
  value. Equality of \<open>pyfloat\<close> is the one that takes not-a-number equal to itself. The
  same holds for the array assembled from the run directories, with the energy the
  assembler's parser extracts for the selected type.
\<close>

theorem dense_energy_array:
  "(select_energy_col df = Some col \<and> ''Index'' \<in> set (columns df)
    \<and> (\<forall>r \<in> set (rows df). \<not> isnan (r ''Index'') \<longrightarrow> (\<exists>n \<le> M. r ''Index'' = Fl (real n)))
    \<and> (\<exists>r \<in> set (rows df). r ''Index'' = Fl (real M))
    \<and> (\<forall>r \<in> set (rows df). \<forall>r' \<in> set (rows df).
          \<not> isnan (r ''Index'') \<longrightarrow> r ''Index'' = r' ''Index'' \<longrightarrow> r = r')
    \<longrightarrow> (\<exists>a. create_energies_array_from_csv (Inr df) fill = Inr a \<and> length a = M + 1
          \<and> (\<forall>r \<in> set (rows df). \<forall>n. r ''Index'' = Fl (real n) \<longrightarrow> \<not> isnan (r col) \<longrightarrow>
                a ! n = r col)
          \<and> (\<forall>i \<le> M. (\<forall>r \<in> set (rows df). r ''Index'' = Fl (real i) \<longrightarrow> isnan (r col)) \<longrightarrow>
                a ! i = fill)))
   \<and> ((\<forall>d \<in> set listing. is_calc_dir d \<longrightarrow>
          (\<forall>i. calc_index (name d) = Some i \<longrightarrow> 0 \<le> i \<and> i \<le> int N))
       \<and> (\<exists>d \<in> set listing. is_calc_dir d \<and> calc_index (name d) = Some (int N))
       \<and> (\<forall>d \<in> set listing. \<forall>d' \<in> set listing.
             is_calc_dir d \<longrightarrow> is_calc_dir d' \<longrightarrow> calc_index (name d) \<noteq> None \<longrightarrow>
             calc_index (name d) = calc_index (name d') \<longrightarrow> d = d')
    \<longrightarrow> (\<exists>a. create_energies_array_direct listing etype fill = Inr a \<and> length a = N + 1
          \<and> (\<forall>d \<in> set listing. is_calc_dir d \<longrightarrow>
                (\<forall>n v. calc_index (name d) = Some (int n) \<longrightarrow>
                   extract_energy_from_outcar_npy (outcar d) etype = Some v \<longrightarrow> a ! n = Fl v))
          \<and> (\<forall>i \<le> N. (\<forall>d \<in> set listing. is_calc_dir d \<longrightarrow> calc_index (name d) = Some (int i) \<longrightarrow>
                           extract_energy_from_outcar_npy (outcar d) etype = None) \<longrightarrow>
                a ! i = fill)))"
proof (intro conjI impI)
  assume h: "select_energy_col df = Some col \<and> ''Index'' \<in> set (columns df)
    \<and> (\<forall>r \<in> set (rows df). \<not> isnan (r ''Index'') \<longrightarrow> (\<exists>n \<le> M. r ''Index'' = Fl (real n)))
    \<and> (\<exists>r \<in> set (rows df). r ''Index'' = Fl (real M))
    \<and> (\<forall>r \<in> set (rows df). \<forall>r' \<in> set (rows df).
          \<not> isnan (r ''Index'') \<longrightarrow> r ''Index'' = r' ''Index'' \<longrightarrow> r = r')"
  then have h1: "select_energy_col df = Some col" and h2: "''Index'' \<in> set (columns df)"
    and h3: "\<forall>r \<in> set (rows df). \<not> isnan (r ''Index'') \<longrightarrow> (\<exists>n \<le> M. r ''Index'' = Fl (real n))"
    and h4: "\<exists>r \<in> set (rows df). r ''Index'' = Fl (real M)"
    and h5: "\<forall>r \<in> set (rows df). \<forall>r' \<in> set (rows df).
          \<not> isnan (r ''Index'') \<longrightarrow> r ''Index'' = r' ''Index'' \<longrightarrow> r = r'"
    by blast+
  from energies_of_dataframe_dense [OF h1 h2 h3 h4 h5, of fill]
  show "\<exists>a. create_energies_array_from_csv (Inr df) fill = Inr a \<and> length a = M + 1
          \<and> (\<forall>r \<in> set (rows df). \<forall>n. r ''Index'' = Fl (real n) \<longrightarrow> \<not> isnan (r col) \<longrightarrow>
                a ! n = r col)
          \<and> (\<forall>i \<le> M. (\<forall>r \<in> set (rows df). r ''Index'' = Fl (real i) \<longrightarrow> isnan (r col)) \<longrightarrow>
                a ! i = fill)"
    using create_energies_array_from_csv_Inr by blast
next
  assume h: "(\<forall>d \<in> set listing. is_calc_dir d \<longrightarrow>
          (\<forall>i. calc_index (name d) = Some i \<longrightarrow> 0 \<le> i \<and> i \<le> int N))
       \<and> (\<exists>d \<in> set listing. is_calc_dir d \<and> calc_index (name d) = Some (int N))
       \<and> (\<forall>d \<in> set listing. \<forall>d' \<in> set listing.
             is_calc_dir d \<longrightarrow> is_calc_dir d' \<longrightarrow> calc_index (name d) \<noteq> None \<longrightarrow>
             calc_index (name d) = calc_index (name d') \<longrightarrow> d = d')"
  then have h1: "\<forall>d \<in> set listing. is_calc_dir d \<longrightarrow>
          (\<forall>i. calc_index (name d) = Some i \<longrightarrow> 0 \<le> i \<and> i \<le> int N)"
    and h2: "\<exists>d \<in> set listing. is_calc_dir d \<and> calc_index (name d) = Some (int N)"
    and h3: "\<forall>d \<in> set listing. \<forall>d' \<in> set listing.
             is_calc_dir d \<longrightarrow> is_calc_dir d' \<longrightarrow> calc_index (name d) \<noteq> None \<longrightarrow>
             calc_index (name d) = calc_index (name d') \<longrightarrow> d = d'"
    by blast+
  show "\<exists>a. create_energies_array_direct listing etype fill = Inr a \<and> length a = N + 1
          \<and> (\<forall>d \<in> set listing. is_calc_dir d \<longrightarrow>
                (\<forall>n v. calc_index (name d) = Some (int n) \<longrightarrow>
                   extract_energy_from_outcar_npy (outcar d) etype = Some v \<longrightarrow> a ! n = Fl v))
          \<and> (\<forall>i \<le> N. (\<forall>d \<in> set listing. is_calc_dir d \<longrightarrow> calc_index (name d) = Some (int i) \<longrightarrow>
                           extract_energy_from_outcar_npy (outcar d) etype = None) \<longrightarrow>
                a ! i = fill)"
    by (rule create_energies_array_direct_dense [OF h1 h2 h3])
qed

lemma table_0_2_rows:
  "rows table_0_2 = [table_row (Fl 2) (Fl (-12.345)), table_row NaN NaN, table_row (Fl 0) (Fl (-10.5))]"
  "table_row x e ''Index'' = x"
  "table_row x e ''Energy_without_entropy_eV'' = e"
  "select_energy_col table_0_2 = Some ''Energy_without_entropy_eV''"
  "''Index'' \<in> set (columns table_0_2)"
  by (simp_all add: table_0_2_def table_row_def select_energy_col_def energy_columns_def)

lemma scan_doc_two_steps:
  "contains ''reached required accuracy'' doc_two_steps"
  "findall m_sigma_0_npy doc_two_steps = [''-12.25'']"
  by (simp_all add: doc_two_steps_def scan_header_two_steps)

lemma parse_npy_two_steps:
  "1000 \<le> n \<Longrightarrow>
   extract_energy_from_outcar_npy (Present n (Some doc_two_steps)) Sigma0 = Some (-12.25)"
  by (simp add: extract_npy_sigma_last scan_doc_two_steps float_values_of_captures)

lemma direct_two_runs:
  "create_energies_array_direct [run_0002, run_0000] Sigma0 NaN = Inr [NaN, NaN, Fl (-12.25)]"
proof -
  have e2: "extract_energy_from_outcar_npy (outcar run_0002) Sigma0 = Some (-12.25)"
    by (simp add: run_0002_def length_docs parse_npy_two_steps)
  have e0: "extract_energy_from_outcar_npy (outcar run_0000) Sigma0 = None"
    by (simp add: run_0000_def extract_energy_from_outcar_npy_def)
  have n: "name run_0002 = ''calc_0002''" "name run_0000 = ''calc_0000''"
    by (simp_all add: run_0002_def run_0000_def)
  show ?thesis
    by (simp add: create_energies_array_direct_def calc_dir_examples calc_data_of_def n
        calc_index_examples e2 e0 max_index_of_def np_full_def np_setitem_def Let_def replicate_3)
qed

theorem dense_energy_array_witness:
  "(\<exists>a. create_energies_array_from_csv (Inr table_0_2) NaN = Inr a \<and> length a = 3
        \<and> a ! 0 = Fl (-10.5) \<and> a ! 1 = NaN \<and> a ! 2 = Fl (-12.345))
   \<and> create_energies_array_from_csv (Inr table_0_2) NaN = Inr [Fl (-10.5), NaN, Fl (-12.345)]
   \<and> (\<exists>b. create_energies_array_direct [run_0002, run_0000] Sigma0 NaN = Inr b \<and> length b = 3
        \<and> b ! 0 = NaN \<and> b ! 1 = NaN \<and> b ! 2 = Fl (-12.25))
   \<and> create_energies_array_direct [run_0002, run_0000] Sigma0 NaN = Inr [NaN, NaN, Fl (-12.25)]"
proof -
  have n: "name run_0002 = ''calc_0002''" "name run_0000 = ''calc_0000''"
    by (simp_all add: run_0002_def run_0000_def)
  have h3: "\<forall>r \<in> set (rows table_0_2). \<not> isnan (r ''Index'') \<longrightarrow> (\<exists>n \<le> 2. r ''Index'' = Fl (real n))"
  proof -
    have "\<exists>n \<le> 2. (2::real) = real n" "\<exists>n \<le> 2. (0::real) = real n"
      by (rule exI [of _ 2], simp) (rule exI [of _ 0], simp)
    then show ?thesis
      by (simp add: table_0_2_rows)
  qed
  have h4: "\<exists>r \<in> set (rows table_0_2). r ''Index'' = Fl (real 2)"
    by (simp add: table_0_2_rows)
  have h5: "\<forall>r \<in> set (rows table_0_2). \<forall>r' \<in> set (rows table_0_2).
          \<not> isnan (r ''Index'') \<longrightarrow> r ''Index'' = r' ''Index'' \<longrightarrow> r = r'"
    by (simp add: table_0_2_rows)
  have g1: "\<forall>d \<in> set [run_0002, run_0000]. is_calc_dir d \<longrightarrow>
          (\<forall>i. calc_index (name d) = Some i \<longrightarrow> 0 \<le> i \<and> i \<le> int 2)"
    by (auto simp: n calc_index_examples)
  have g2: "\<exists>d \<in> set [run_0002, run_0000]. is_calc_dir d \<and> calc_index (name d) = Some (int 2)"
    by (simp add: n calc_index_examples calc_dir_examples)
  have g3: "\<forall>d \<in> set [run_0002, run_0000]. \<forall>d' \<in> set [run_0002, run_0000].
          is_calc_dir d \<longrightarrow> is_calc_dir d' \<longrightarrow> calc_index (name d) \<noteq> None \<longrightarrow>
          calc_index (name d) = calc_index (name d') \<longrightarrow> d = d'"
    by (simp add: n calc_index_examples)
  note t = dense_energy_array
         [of table_0_2 "''Energy_without_entropy_eV''" 2 NaN "[run_0002, run_0000]" 2 Sigma0]
  from t table_0_2_rows(4,5) h3 h4 h5 obtain a where a:
    "create_energies_array_from_csv (Inr table_0_2) NaN = Inr a" "length a = 2 + 1"
    "\<forall>r \<in> set (rows table_0_2). \<forall>n. r ''Index'' = Fl (real n) \<longrightarrow>
        \<not> isnan (r ''Energy_without_entropy_eV'') \<longrightarrow> a ! n = r ''Energy_without_entropy_eV''"
    "\<forall>i \<le> 2. (\<forall>r \<in> set (rows table_0_2). r ''Index'' = Fl (real i) \<longrightarrow>
        isnan (r ''Energy_without_entropy_eV'')) \<longrightarrow> a ! i = NaN"
    by blast
  have a0: "a ! 0 = Fl (-10.5)"
    using a(3) [rule_format, of "table_row (Fl 0) (Fl (-10.5))" 0] by (simp add: table_0_2_rows)
  have a2: "a ! 2 = Fl (-12.345)"
    using a(3) [rule_format, of "table_row (Fl 2) (Fl (-12.345))" 2] by (simp add: table_0_2_rows)
  have p1: "\<forall>r \<in> set (rows table_0_2). r ''Index'' = Fl (real 1) \<longrightarrow>
        isnan (r ''Energy_without_entropy_eV'')"
    by (simp add: table_0_2_rows)
  have le: "(0::nat) \<le> 2" "(1::nat) \<le> 2"
    by simp_all
  have a1: "a ! 1 = NaN"
    using a(4) p1 le(2) by blast
  from t g1 g2 g3 obtain b where b:
    "create_energies_array_direct [run_0002, run_0000] Sigma0 NaN = Inr b" "length b = 2 + 1"
    "\<forall>d \<in> set [run_0002, run_0000]. is_calc_dir d \<longrightarrow>
        (\<forall>n v. calc_index (name d) = Some (int n) \<longrightarrow>
           extract_energy_from_outcar_npy (outcar d) Sigma0 = Some v \<longrightarrow> b ! n = Fl v)"
    "\<forall>i \<le> 2. (\<forall>d \<in> set [run_0002, run_0000]. is_calc_dir d \<longrightarrow>
        calc_index (name d) = Some (int i) \<longrightarrow>
        extract_energy_from_outcar_npy (outcar d) Sigma0 = None) \<longrightarrow> b ! i = NaN"
    by blast
  have e2: "extract_energy_from_outcar_npy (outcar run_0002) Sigma0 = Some (-12.25)"
    by (simp add: run_0002_def length_docs parse_npy_two_steps)
  have e0: "extract_energy_from_outcar_npy (outcar run_0000) Sigma0 = None"
    by (simp add: run_0000_def extract_energy_from_outcar_npy_def)
  have b2: "b ! 2 = Fl (-12.25)"
    using b(3) [rule_format, of run_0002 2 "-12.25"] e2
    by (simp add: n calc_index_examples calc_dir_examples)
  have r0: "\<forall>d \<in> set [run_0002, run_0000]. is_calc_dir d \<longrightarrow>
        calc_index (name d) = Some (int 0) \<longrightarrow>
        extract_energy_from_outcar_npy (outcar d) Sigma0 = None"
    using e0 by (simp add: n calc_index_examples)
  have r1: "\<forall>d \<in> set [run_0002, run_0000]. is_calc_dir d \<longrightarrow>
        calc_index (name d) = Some (int 1) \<longrightarrow>
        extract_energy_from_outcar_npy (outcar d) Sigma0 = None"
    by (simp add: n calc_index_examples)
  have b0: "b ! 0 = NaN"
    using b(4) r0 le(1) by blast
  have b1: "b ! 1 = NaN"
    using b(4) r1 le(2) by blast
  have c: "create_energies_array_from_csv (Inr table_0_2) NaN = Inr [Fl (-10.5), NaN, Fl (-12.345)]"
    by (simp add: create_energies_array_from_csv_def energies_of_table_0_2)
  from a(1,2) a0 a1 a2 b(1,2) b0 b1 b2 c direct_two_runs show ?thesis
    by auto
qed


end
